theory Spec2Isabelle
  imports Main "HOL-Library.Sublist" "HOL-Library.AList"
begin

section \<open>Strings\<close>

text \<open>
  A JavaScript string is modelled as the \<^typ>\<open>string\<close> of the bytes of its text in
  UTF-8, so an ASCII character is one \<^typ>\<open>char\<close> and any other character is two to four
  of them, none of which is an ASCII character. The classes \<open>[0-9]\<close>, \<open>[a-z0-9]\<close> and
  \<open>\D\<close> of the program's regular expressions hold or exclude ASCII characters only, and
  \<open>includes\<close> on the text is \<open>includes\<close> on the bytes.
\<close>

definition isDigit :: "char \<Rightarrow> bool" where
  \<comment> \<open>the class \<open>[0-9]\<close>, which is also \<open>\d\<close>\<close>
  "isDigit c = (c \<in> set ''0123456789'')"

definition isLowerAlnum :: "char \<Rightarrow> bool" where
  \<comment> \<open>the class \<open>[a-z0-9]\<close>\<close>
  "isLowerAlnum c = (c \<in> set ''abcdefghijklmnopqrstuvwxyz0123456789'')"

definition toLowerChar :: "char \<Rightarrow> char" where
  "toLowerChar c =
     (case map_of (zip ''ABCDEFGHIJKLMNOPQRSTUVWXYZ'' ''abcdefghijklmnopqrstuvwxyz'') c of
        Some l \<Rightarrow> l
      | None \<Rightarrow> c)"

fun toLowerCase :: "string \<Rightarrow> string" where
  "toLowerCase [] = []"
| "toLowerCase (c # s) =
     (if prefix [CHR 0xE2, CHR 0x84, CHR 0xAA] (c # s) then CHR ''k'' # toLowerCase (drop 2 s)
      else if prefix [CHR 0xC4, CHR 0xB0] (c # s) then
        [CHR ''i'', CHR 0xCC, CHR 0x87] @ toLowerCase (drop 1 s)
      else toLowerChar c # toLowerCase s)"

text \<open>
  \<open>s.toLowerCase()\<close>. The letters A to Z are lowercased. Two characters outside ASCII
  lowercase to text with an ASCII letter in it: the Kelvin sign U+212A becomes \<open>k\<close>, and the
  dotted capital I, U+0130, becomes \<open>i\<close> followed by the combining dot U+0307. Any other
  character outside ASCII lowercases to characters outside ASCII and is kept as it is here:
  the program only looks for ASCII text in a lowercased string, compares it with ASCII
  text, or removes from it what is not an ASCII letter or digit, and for none of these
  does it matter which characters outside ASCII stand in it.
\<close>

definition utf16Units :: "char \<Rightarrow> nat" where
  \<comment> \<open>the UTF-16 code units that the character starting with this byte takes: none for a
      continuation byte, two for the first byte of a four-byte character\<close>
  "utf16Units c =
     (if (of_char c :: nat) < 0x80 then 1
      else if (of_char c :: nat) < 0xC0 then 0
      else if (of_char c :: nat) < 0xF0 then 1
      else 2)"

definition jsLength :: "string \<Rightarrow> nat" where
  \<comment> \<open>\<open>s.length\<close>, which counts UTF-16 code units\<close>
  "jsLength s = sum_list (map utf16Units s)"

fun str_includes :: "string \<Rightarrow> string \<Rightarrow> bool" where
  \<comment> \<open>\<open>s.includes(t)\<close>: \<open>t\<close> occurs in \<open>s\<close> as a contiguous run\<close>
  "str_includes [] t = (t = [])"
| "str_includes (c # s) t = (prefix t (c # s) \<or> str_includes s t)"

definition startsWith :: "string \<Rightarrow> string \<Rightarrow> bool" where
  "startsWith s t = prefix t s"

definition nl :: string where
  "nl = [CHR 0x0A]"

definition dq :: string where
  \<comment> \<open>the double quote\<close>
  "dq = [CHR 0x22]"

definition check_mark :: string where
  \<comment> \<open>U+2705 in UTF-8\<close>
  "check_mark = [CHR 0xE2, CHR 0x9C, CHR 0x85]"

definition arrows_mark :: string where
  \<comment> \<open>U+1F504 in UTF-8\<close>
  "arrows_mark = [CHR 0xF0, CHR 0x9F, CHR 0x94, CHR 0x84]"

fun join :: "string \<Rightarrow> string list \<Rightarrow> string" where
  \<comment> \<open>\<open>xs.join(sep)\<close>\<close>
  "join sep [] = []"
| "join sep [x] = x"
| "join sep (x # y # ys) = x @ sep @ join sep (y # ys)"

definition digitChar :: "nat \<Rightarrow> char" where
  "digitChar d = ''0123456789'' ! (d mod 10)"

fun showNat :: "nat \<Rightarrow> string" where
  \<comment> \<open>the decimal numeral of a natural number, as a template literal prints it\<close>
  "showNat n = (if n < 10 then [digitChar n] else showNat (n div 10) @ [digitChar (n mod 10)])"

declare showNat.simps [simp del]

definition showInt :: "int \<Rightarrow> string" where
  "showInt i = (if i < 0 then ''-'' @ showNat (nat (- i)) else showNat (nat i))"


section \<open>Telephone numbers (src/libs/tools.ts)\<close>

definition formatPhoneNumber :: "string \<Rightarrow> string" where
  "formatPhoneNumber phone =
     (let digitsOnly = filter isDigit phone;
          withCountryCode = (if startsWith digitsOnly ''1'' then digitsOnly else ''1'' @ digitsOnly)
      in ''+'' @ withCountryCode)"


section \<open>The stores of src/libs/versionedFunctionMap.ts\<close>

text \<open>
  The module keeps its state in process-wide \<open>Map\<close>s. A \<open>Map\<close> that the code only reads and
  writes by key is a partial function; a \<open>Map\<close> that the code also iterates over is an
  association list in insertion order (\<open>set\<close> on a present key keeps its place, \<open>set\<close> on a new
  key appends, as \<^const>\<open>AList.update\<close> does). \<open>Date.now()\<close> is a parameter of every function
  that reads it. Logging is left out.
\<close>

record agent_info =
  ai_agentId :: string
  ai_type :: string
  ai_channel :: string
  ai_timestamp :: int

record restaurant =
  r_name :: string
  r_phone :: string
  r_id :: string
  lastSeen :: int

record yelp_result =
  y_name :: string
  y_phone :: string
  y_id :: string

record call_action =
  callAction :: string
  ca_timestamp :: int

record polling_session =
  ps_agentId :: string
  ps_userId :: string
  ps_channel :: string
  ps_type :: string
  pollCount :: nat
  lastStatus :: string
  consecutiveUnchangedCount :: nat
  intervalId :: "nat option"

record polling_callback =
  pc_appId :: string
  pc_userId :: string
  pc_channel :: string
  pc_agentId :: string
  pc_type :: string

datatype update_type = UPDATE | COMPLETED | FAILED

record status_update =
  su_timestamp :: int
  su_status :: string
  su_type :: update_type

record context_entry =
  ce_agentId :: string
  ce_type :: string
  latestStatus :: string
  updates :: "status_update list"

record store =
  agentStore :: "string \<rightharpoonup> agent_info"
  restaurantIndex :: "string \<rightharpoonup> (string \<times> restaurant) list"
  callActionStore :: "string \<rightharpoonup> call_action"
  activeSpecializedAgents :: "string \<rightharpoonup> bool"
  activePollingSessions :: "(string \<times> polling_session) list"
  pollingCallbacks :: "string \<rightharpoonup> polling_callback"
  conversationContext :: "string \<rightharpoonup> context_entry"
  timers :: "nat set"

text \<open>
  The last field is not a \<open>Map\<close> of the module: it holds the interval timers that are armed in
  the runtime, which \<open>clearInterval\<close> disarms.
\<close>

definition emptyStore :: store where
  "emptyStore =
     \<lparr>agentStore = Map.empty, restaurantIndex = Map.empty, callActionStore = Map.empty,
      activeSpecializedAgents = Map.empty, activePollingSessions = [],
      pollingCallbacks = Map.empty, conversationContext = Map.empty, timers = {}\<rparr>"

definition clearInterval :: "nat \<Rightarrow> store \<Rightarrow> store" where
  "clearInterval t st = st\<lparr>timers := timers st - {t}\<rparr>"

definition truthy :: "string option \<Rightarrow> bool" where
  \<comment> \<open>an optional string in a condition: \<open>undefined\<close> and the empty string are false\<close>
  "truthy v = (case v of None \<Rightarrow> False | Some s \<Rightarrow> s \<noteq> [])"

definition orElse :: "string option \<Rightarrow> string \<Rightarrow> string" where
  \<comment> \<open>\<open>v || d\<close> on an optional string\<close>
  "orElse v d = (case v of None \<Rightarrow> d | Some s \<Rightarrow> if s \<noteq> [] then s else d)"

definition guardHeld :: "store \<Rightarrow> string \<Rightarrow> bool" where
  \<comment> \<open>the condition \<open>activeSpecializedAgents.get(channel)\<close>\<close>
  "guardHeld st channel = (activeSpecializedAgents st channel = Some True)"


subsection \<open>Conversation context\<close>

text \<open>
  The only function that writes \<open>conversationContext\<close>. Nothing in the repository calls it,
  and the module does not export it.
\<close>

definition injectStatusIntoConversation ::
  "int \<Rightarrow> string \<Rightarrow> string \<Rightarrow> string \<Rightarrow> string \<Rightarrow> update_type \<Rightarrow> store \<Rightarrow> store" where
  "injectStatusIntoConversation now channel agentId type status updateType st =
     (let contextKey = channel;
          update = \<lparr>su_timestamp = now, su_status = status, su_type = updateType\<rparr>
      in case conversationContext st contextKey of
           Some existing \<Rightarrow>
             (let pushed = updates existing @ [update];
                  kept = (if length pushed > 5 then drop (length pushed - 5) pushed else pushed)
              in st\<lparr>conversationContext := (conversationContext st)(contextKey \<mapsto>
                      existing\<lparr>latestStatus := status, updates := kept\<rparr>)\<rparr>)
         | None \<Rightarrow>
             st\<lparr>conversationContext := (conversationContext st)(contextKey \<mapsto>
                  \<lparr>ce_agentId = agentId, ce_type = type, latestStatus = status,
                   updates = [update]\<rparr>)\<rparr>)"


subsection \<open>Polling sessions\<close>

record stop_args =
  agent_id :: "string option"
  reason :: "string option"

definition locateSession ::
  "string \<Rightarrow> string option \<Rightarrow> (string \<times> polling_session) list \<Rightarrow> (string \<times> string) option" where
  \<comment> \<open>the first half of \<open>stopAgentPolling\<close>: the agent id and the session key it settles on,
      or \<open>None\<close> where it returns \<open>No active agent found to stop.\<close>\<close>
  "locateSession channel agent_id_arg sessions =
     (if \<not> truthy agent_id_arg then
        (case find (\<lambda>(key, session). ps_channel session = channel) sessions of
           Some (key, session) \<Rightarrow>
             (if ps_agentId session \<noteq> [] then Some (ps_agentId session, key) else None)
         | None \<Rightarrow> None)
      else
        (case agent_id_arg of
           Some agentId \<Rightarrow> Some (agentId, channel @ ''-'' @ agentId)
         | None \<Rightarrow> None))"

definition stopAgentPolling :: "string \<Rightarrow> stop_args \<Rightarrow> store \<Rightarrow> string \<times> store" where
  \<comment> \<open>the parameters \<open>appId\<close> and \<open>userId\<close> are not used by the function\<close>
  "stopAgentPolling channel args st =
     (case locateSession channel (agent_id args) (activePollingSessions st) of
        None \<Rightarrow> (''No active agent found to stop.'', st)
      | Some (agentId, sessionKey) \<Rightarrow>
          (case map_of (activePollingSessions st) sessionKey of
             None \<Rightarrow> (''No active polling session found for agent '' @ agentId @ ''.'', st)
           | Some session \<Rightarrow>
               (let st1 = (case intervalId session of
                             Some t \<Rightarrow> clearInterval t st
                           | None \<Rightarrow> st);
                    st2 = st1\<lparr>activePollingSessions :=
                                 AList.delete sessionKey (activePollingSessions st1)\<rparr>;
                    reason = orElse (reason args) ''manually stopped'';
                    st3 = st2\<lparr>pollingCallbacks := (pollingCallbacks st2)(channel := None)\<rparr>;
                    st4 = st3\<lparr>activeSpecializedAgents :=
                                 (activeSpecializedAgents st3)(channel := None)\<rparr>
                in (check_mark @ '' Stopped monitoring agent '' @ agentId @ ''. Reason: '' @ reason,
                    st4))))"

definition startAgentPolling ::
  "string \<Rightarrow> string \<Rightarrow> string \<Rightarrow> string \<Rightarrow> string \<Rightarrow> store \<Rightarrow> store" where
  "startAgentPolling appId userId channel agentId type st =
     (let sessionKey = channel @ ''-'' @ agentId;
          st1 = (case map_of (activePollingSessions st) sessionKey of
                   Some existing \<Rightarrow>
                     (case intervalId existing of
                        Some t \<Rightarrow> clearInterval t st
                      | None \<Rightarrow> st)
                 | None \<Rightarrow> st);
          st2 = st1\<lparr>activePollingSessions :=
                       AList.update sessionKey
                         \<lparr>ps_agentId = agentId, ps_userId = userId, ps_channel = channel,
                          ps_type = type, pollCount = 0, lastStatus = ''STARTING'',
                          consecutiveUnchangedCount = 0, intervalId = None\<rparr>
                         (activePollingSessions st1)\<rparr>
      in st2\<lparr>pollingCallbacks := (pollingCallbacks st2)(channel \<mapsto>
               \<lparr>pc_appId = appId, pc_userId = userId, pc_channel = channel,
                pc_agentId = agentId, pc_type = type\<rparr>)\<rparr>)"

definition storeAgentInfo :: "int \<Rightarrow> string \<Rightarrow> string \<Rightarrow> string \<Rightarrow> string \<Rightarrow> store \<Rightarrow> store" where
  "storeAgentInfo now userId agentId type channel st =
     st\<lparr>agentStore := (agentStore st)(userId \<mapsto>
          \<lparr>ai_agentId = agentId, ai_type = type, ai_channel = channel, ai_timestamp = now\<rparr>)\<rparr>"


subsection \<open>The telephone directory\<close>

fun storeYelpLoop ::
  "(nat \<Rightarrow> int) \<Rightarrow> nat \<Rightarrow> yelp_result list \<Rightarrow> (string \<times> restaurant) list \<Rightarrow>
   (string \<times> restaurant) list" where
  \<comment> \<open>the \<open>forEach\<close> of \<open>storeYelpResults\<close> from the result of index \<open>i\<close> on; \<open>clock i\<close> is what
      \<open>Date.now()\<close> returns while that result is handled\<close>
  "storeYelpLoop clock i [] userIndex = userIndex"
| "storeYelpLoop clock i (result # results) userIndex =
     storeYelpLoop clock (Suc i) results
       (if y_phone result \<noteq> [] \<and> map_of userIndex (y_id result) = None then
          AList.update (y_id result)
            \<lparr>r_name = y_name result, r_phone = y_phone result, r_id = y_id result,
             lastSeen = clock i\<rparr> userIndex
        else if y_phone result \<noteq> [] \<and> map_of userIndex (y_id result) \<noteq> None then
          (case map_of userIndex (y_id result) of
             Some existing \<Rightarrow> AList.update (y_id result) (existing\<lparr>lastSeen := clock i\<rparr>) userIndex
           | None \<Rightarrow> userIndex)
        else userIndex)"

definition storeYelpResults :: "(nat \<Rightarrow> int) \<Rightarrow> string \<Rightarrow> yelp_result list \<Rightarrow> store \<Rightarrow> store" where
  "storeYelpResults clock userId results st =
     (let userIndex = (case restaurantIndex st userId of
                         None \<Rightarrow> []
                       | Some idx \<Rightarrow> idx)
      in st\<lparr>restaurantIndex := (restaurantIndex st)(userId \<mapsto>
               storeYelpLoop clock 0 results userIndex)\<rparr>)"

definition normalizeName :: "string \<Rightarrow> string" where
  \<comment> \<open>\<open>name.toLowerCase().replace(/[^a-z0-9]/g, '')\<close>\<close>
  "normalizeName name = filter isLowerAlnum (toLowerCase name)"

definition nameMatches :: "string \<Rightarrow> restaurant \<Rightarrow> bool" where
  \<comment> \<open>the condition of the loop of \<open>findPhoneNumber\<close>\<close>
  "nameMatches normalizedSearchName restaurant =
     (let normalizedResultName = normalizeName (r_name restaurant)
      in str_includes normalizedResultName normalizedSearchName
         \<or> str_includes normalizedSearchName normalizedResultName)"

definition findPhoneNumber :: "string \<Rightarrow> string \<Rightarrow> store \<Rightarrow> string option" where
  "findPhoneNumber userId restaurantName st =
     (case restaurantIndex st userId of
        None \<Rightarrow> None
      | Some userIndex \<Rightarrow>
          (if length userIndex = 0 then None
           else
             (let normalizedSearchName = normalizeName restaurantName
              in case find (nameMatches normalizedSearchName) (map snd userIndex) of
                   Some restaurant \<Rightarrow> Some (r_phone restaurant)
                 | None \<Rightarrow> None)))"


text \<open>
  The match as the specification words it, to compare \<open>findPhoneNumber\<close> with: a query
  matches a stored name when either normalized string contains the other, where containing
  is \<^const>\<open>sublist\<close>.
\<close>

definition specMatches :: "string \<Rightarrow> string \<Rightarrow> bool" where
  "specMatches query name =
     (sublist (normalizeName query) (normalizeName name)
      \<or> sublist (normalizeName name) (normalizeName query))"


subsection \<open>The call action of a channel\<close>

definition storeCallAction :: "int \<Rightarrow> string \<Rightarrow> string \<Rightarrow> store \<Rightarrow> store" where
  "storeCallAction now channel action st =
     (if channel = [] then st
      else st\<lparr>callActionStore := (callActionStore st)(channel \<mapsto>
                \<lparr>callAction = action, ca_timestamp = now\<rparr>)\<rparr>)"

definition getCallAction :: "int \<Rightarrow> string \<Rightarrow> store \<Rightarrow> string \<times> store" where
  "getCallAction now channel st =
     (if channel = [] then (''call_hermes'', st)
      else
        (case callActionStore st channel of
           Some stored \<Rightarrow>
             (let oneHourAgo = now - (60 * 60 * 1000)
              in if ca_timestamp stored < oneHourAgo then
                   (''call_hermes'', st\<lparr>callActionStore := (callActionStore st)(channel := None)\<rparr>)
                 else (callAction stored, st))
         | None \<Rightarrow> (''call_hermes'', st)))"


section \<open>Specialized voice agents (src/libs/versionedFunctionMap.ts)\<close>

text \<open>
  What the outside world answers is an input of the model: the configuration, the clock, the
  random suffix, the answer of the provisioning request and the answer of the telephony
  bridge. A thrown value is either an \<open>Error\<close> object, with its name and message, or
  something else.
\<close>

datatype thrown = JsError (err_name: string) (err_message: string) | NonError

record app_config =
  convoAiBaseUrl :: string
  specializedAgentUrl :: string
  specializedAgentApiKey :: string
  ttsVendor :: string
  elevenlabsApiKey :: string
  elevenlabsModelId :: string
  elevenlabsVoiceId :: string
  microsoftKey :: string
  microsoftRegion :: string
  microsoftVoiceName :: string

datatype join_outcome =
    JoinThrows thrown
  | JoinNotOk nat string string
  | JoinOk "string option"

text \<open>
  \<open>JoinThrows\<close>: building the token and the request, \<open>fetch\<close> or reading the response
  threw. \<open>JoinNotOk status statusText errorText\<close>: the response was not ok.
  \<open>JoinOk agent_id\<close>: the response was ok and its body held this \<open>agent_id\<close>, if any.
\<close>

datatype call_mode = CallSid | Live string | CallHermes

record env =
  config :: app_config
  timestamp :: int
  randomSuffix :: string
  joinOutcome :: join_outcome
  nowStored :: int
  nowAction :: int
  telephony :: "call_mode \<Rightarrow> string \<Rightarrow> thrown + string"

definition missingConfig :: "app_config \<Rightarrow> string list" where
  "missingConfig c =
     (if convoAiBaseUrl c = [] then [''AGORA_CONVO_AI_BASE_URL''] else [])
     @ (if specializedAgentUrl c = [] then [''LLM_URL''] else [])
     @ (if specializedAgentApiKey c = [] then [''LLM_API_KEY''] else [])
     @ (if ttsVendor c = ''elevenlabs'' then
          (if elevenlabsApiKey c = [] then [''ELEVENLABS_API_KEY''] else [])
          @ (if elevenlabsModelId c = [] then [''ELEVENLABS_MODEL_ID''] else [])
          @ (if elevenlabsVoiceId c = [] then [''ELEVENLABS_VOICE_ID''] else [])
        else if ttsVendor c = ''microsoft'' then
          (if microsoftKey c = [] then [''MICROSOFT_TTS_KEY''] else [])
          @ (if microsoftRegion c = [] then [''MICROSOFT_TTS_REGION''] else [])
          @ (if microsoftVoiceName c = [] then [''MICROSOFT_TTS_VOICE_NAME''] else [])
        else [])"

definition getTTSConfig :: "app_config \<Rightarrow> thrown + string" where
  \<comment> \<open>the vendor of the configuration it returns, or the error it throws\<close>
  "getTTSConfig c =
     (if ttsVendor c = ''elevenlabs'' then Inr ''elevenlabs''
      else if ttsVendor c = ''microsoft'' then Inr ''microsoft''
      else Inl (JsError ''Error''
             (''Unsupported TTS vendor: '' @ ttsVendor c
              @ ''. Supported vendors: elevenlabs, microsoft'')))"

definition placeCall :: "env \<Rightarrow> string \<Rightarrow> string \<Rightarrow> string \<Rightarrow> thrown + string" where
  \<comment> \<open>the \<open>switch\<close> on the call action\<close>
  "placeCall e action specializedChannelName phoneNumber =
     (if action = ''call_sid'' then telephony e CallSid specializedChannelName
      else if action = ''live'' then telephony e (Live phoneNumber) specializedChannelName
      else telephony e CallHermes specializedChannelName)"

definition agentDetails :: "string \<Rightarrow> string \<Rightarrow> string option \<Rightarrow> string \<Rightarrow> string" where
  "agentDetails specialization specializedChannelName a phoneNumber =
     specialization @ '' agent created successfully, but phone call failed.'' @ nl @ nl
     @ ''Agent Details:'' @ nl
     @ ''- Type: '' @ specialization @ nl
     @ ''- Channel: '' @ specializedChannelName @ nl
     @ ''- Agent ID: '' @ orElse a ''Unknown ID'' @ nl
     @ ''- Phone Number: '' @ phoneNumber @ nl @ nl"

definition callFailedResponse :: "string \<Rightarrow> string \<Rightarrow> string option \<Rightarrow> string \<Rightarrow> string \<Rightarrow> string" where
  "callFailedResponse specialization specializedChannelName a phoneNumber callResult =
     agentDetails specialization specializedChannelName a phoneNumber
     @ ''Phone Call Error: '' @ callResult @ nl @ nl
     @ ''The agent is ready but the phone call couldn't connect. This might be due to:'' @ nl
     @ ''- Invalid phone number format'' @ nl
     @ ''- Network/PSTN configuration issues'' @ nl
     @ ''- Restaurant phone line unavailable'' @ nl @ nl
     @ ''You can try calling '' @ phoneNumber @ '' manually to place your order.''"

definition callThrewResponse :: "string \<Rightarrow> string \<Rightarrow> string option \<Rightarrow> string \<Rightarrow> thrown \<Rightarrow> string" where
  "callThrewResponse specialization specializedChannelName a phoneNumber phoneError =
     agentDetails specialization specializedChannelName a phoneNumber
     @ ''Phone Call Error: ''
     @ (case phoneError of JsError n m \<Rightarrow> m | NonError \<Rightarrow> ''Unknown phone error'') @ nl @ nl
     @ ''The agent is ready but you'll need to manually connect the phone call. ''
     @ ''You can try calling '' @ phoneNumber @ '' manually to connect to the agent.''"

definition callStartedResponse :: "string \<Rightarrow> string \<Rightarrow> string" where
  "callStartedResponse specialization phoneNumber =
     check_mark @ '' '' @ specialization @ '' agent created and calling '' @ phoneNumber @ ''!''
     @ nl @ nl
     @ arrows_mark @ '' **Automatic monitoring started** - I'll provide real-time updates as your ''
     @ specialization @ '' progresses.'' @ nl @ nl
     @ ''Initial status will be available shortly...''"

definition createAgentTry ::
  "env \<Rightarrow> string \<Rightarrow> string \<Rightarrow> string \<Rightarrow> string \<Rightarrow> string \<Rightarrow> store \<Rightarrow> (thrown + string) \<times> store" where
  \<comment> \<open>the \<open>try\<close> block of \<open>createSpecializedVoiceAgent\<close>: \<open>Inl\<close> is what it throws\<close>
  "createAgentTry e appId userId channel specialization phoneNumber st =
     (if missingConfig (config e) \<noteq> [] then
        (Inr (''Error: Specialized voice agents require additional configuration. ''
              @ ''Missing environment variables: '' @ join '', '' (missingConfig (config e))
              @ ''. Please set these variables and restart the server.''), st)
      else
        (case getTTSConfig (config e) of
           Inl err \<Rightarrow> (Inl err, st)
         | Inr ttsConfig \<Rightarrow>
             (let specializedChannelName =
                    ''specialized-'' @ specialization @ ''-'' @ showInt (timestamp e) @ ''-''
                    @ randomSuffix e
              in case joinOutcome e of
                   JoinThrows err \<Rightarrow> (Inl err, st)
                 | JoinNotOk status statusText errorText \<Rightarrow>
                     (Inr (''Error creating '' @ specialization @ '' agent: '' @ showNat status
                           @ '' '' @ statusText @ '' - '' @ errorText), st)
                 | JoinOk a \<Rightarrow>
                     (let st1 = (case a of
                                   Some i \<Rightarrow>
                                     if i \<noteq> [] then
                                       storeAgentInfo (nowStored e) userId i specialization
                                         specializedChannelName st
                                     else st
                                 | None \<Rightarrow> st);
                          (action, st2) = getCallAction (nowAction e) channel st1
                      in case placeCall e action specializedChannelName phoneNumber of
                           Inl phoneError \<Rightarrow>
                             (Inr (callThrewResponse specialization specializedChannelName a
                                     phoneNumber phoneError), st2)
                         | Inr callResult \<Rightarrow>
                             (if str_includes callResult ''Failed''
                                 \<or> str_includes callResult ''Error''
                                 \<or> str_includes callResult ''Invalid'' then
                                (Inr (callFailedResponse specialization specializedChannelName a
                                        phoneNumber callResult), st2)
                              else
                                (Inr (callStartedResponse specialization phoneNumber),
                                 (case a of
                                    Some i \<Rightarrow>
                                      if i \<noteq> [] then
                                        startAgentPolling appId userId channel i specialization st2
                                      else st2
                                  | None \<Rightarrow> st2)))))))"

definition createAgentCatch :: "string \<Rightarrow> thrown \<Rightarrow> string" where
  \<comment> \<open>the \<open>catch\<close> block of \<open>createSpecializedVoiceAgent\<close>\<close>
  "createAgentCatch specialization error =
     (case error of
        JsError n m \<Rightarrow>
          (if n = ''AbortError'' then
             ''Error creating '' @ specialization
             @ '' agent: Request timed out after 30 seconds. ''
             @ ''Please check your network connection and try again.''
           else if str_includes m ''fetch failed'' then
             ''Error creating '' @ specialization
             @ '' agent: Network connection failed. Please check if the Agora ''
             @ ''Conversational AI service is accessible and try again.''
           else ''Error creating '' @ specialization @ '' agent: '' @ m)
      | NonError \<Rightarrow> ''Error creating '' @ specialization @ '' agent: Unknown error'')"

definition createSpecializedVoiceAgent ::
  "env \<Rightarrow> string \<Rightarrow> string \<Rightarrow> string \<Rightarrow> string \<Rightarrow> string \<Rightarrow> store \<Rightarrow> (thrown + string) \<times> store" where
  \<comment> \<open>\<open>Inr\<close>: the promise is fulfilled with this string; \<open>Inl\<close>: it is rejected. The
      parameters \<open>systemMessage\<close> and \<open>greetingMessage\<close> only travel in the body of the
      provisioning request, whose answer is \<open>joinOutcome\<close>, and are left out.\<close>
  "createSpecializedVoiceAgent e appId userId channel specialization phoneNumber st =
     (case createAgentTry e appId userId channel specialization phoneNumber st of
        (Inl error, st') \<Rightarrow> (Inr (createAgentCatch specialization error), st')
      | (Inr response, st') \<Rightarrow> (Inr response, st'))"


subsection \<open>The three wrappers\<close>

text \<open>
  A wrapper returns its string at once. When it dispatches, it has set the guard of the
  channel and started \<open>createSpecializedVoiceAgent\<close> without awaiting it: the third component
  of its result is that started task, which \<open>runDetached\<close> completes later, handler of
  \<open>.catch\<close> included. Nothing of \<open>createSpecializedVoiceAgent\<close> touches a store before its
  first \<open>await\<close>, so all of it is run there.
\<close>

record dispatch_task =
  task_appId :: string
  task_userId :: string
  task_channel :: string
  task_specialization :: string
  task_phoneNumber :: string

definition runDetached :: "env \<Rightarrow> dispatch_task \<Rightarrow> store \<Rightarrow> store" where
  "runDetached e t st =
     (case createSpecializedVoiceAgent e (task_appId t) (task_userId t) (task_channel t)
             (task_specialization t) (task_phoneNumber t) st of
        (Inl error, st') \<Rightarrow>
          st'\<lparr>activeSpecializedAgents := (activeSpecializedAgents st')(task_channel t := None)\<rparr>
      | (Inr response, st') \<Rightarrow> st')"

definition alreadyActive :: string where
  "alreadyActive =
     ''Error: A specialized agent is already active for this conversation. ''
     @ ''Please wait for the current call to complete before starting a new one.''"

definition missingFields :: "(string \<times> bool) list \<Rightarrow> string option" where
  \<comment> \<open>the argument validation of a wrapper, from the fields and whether each is falsy\<close>
  "missingFields checks =
     (let missing = map fst (filter snd checks)
      in if missing \<noteq> [] then
           Some (''Error: Missing required field(s): '' @ join '', '' missing
                 @ ''. Please confirm all details with the user before proceeding.'')
         else None)"

definition invalidCustomerName :: "string \<Rightarrow> string option" where
  \<comment> \<open>the data integrity check on the customer name\<close>
  "invalidCustomerName customer_name =
     (if str_includes (toLowerCase customer_name) ''customer''
         \<or> str_includes (toLowerCase customer_name) ''user''
         \<or> jsLength customer_name < 2 then
        Some (''Error: Invalid customer name '' @ dq @ customer_name @ dq
              @ ''. Please ask the user for their real full name before proceeding. ''
              @ ''Names like '' @ dq @ ''Customer'' @ dq @ '', '' @ dq @ ''User'' @ dq @ '', ''
              @ dq @ ''Indian Scissor'' @ dq @ '' are not acceptable.'')
      else None)"

definition phonePattern :: "string \<Rightarrow> bool" where
  \<comment> \<open>the regular expression \<open>/^\+?1?[0-9]{10,11}$/\<close>\<close>
  "phonePattern s =
     (let r = (case s of [] \<Rightarrow> [] | c # cs \<Rightarrow> if c = CHR ''+'' then cs else c # cs);
          digits = (\<lambda>t. list_all isDigit t \<and> (length t = 10 \<or> length t = 11))
      in digits r \<or> (case r of [] \<Rightarrow> False | c # cs \<Rightarrow> c = CHR ''1'' \<and> digits cs))"

record inquiry_args =
  q_phone_number :: string
  q_restaurant_name :: string
  question :: string

definition validateInquiry :: "inquiry_args \<Rightarrow> string option" where
  \<comment> \<open>what \<open>callAndAskQuestionAgent\<close> does before it looks at the guard: the error it returns\<close>
  "validateInquiry args =
     missingFields
       [(''phone_number'', q_phone_number args = []),
        (''restaurant_name'', q_restaurant_name args = []),
        (''question'', question args = [])]"

definition callAndAskQuestionAgent ::
  "string \<Rightarrow> string \<Rightarrow> string \<Rightarrow> inquiry_args \<Rightarrow> store \<Rightarrow> string \<times> store \<times> dispatch_task option" where
  "callAndAskQuestionAgent appId userId channel args st =
     (case validateInquiry args of
        Some error \<Rightarrow> (error, st, None)
      | None \<Rightarrow>
          (if guardHeld st channel then (alreadyActive, st, None)
           else
             (check_mark @ '' inquiry agent dispatched and calling '' @ q_restaurant_name args
              @ '' ('' @ q_phone_number args @ '')!'' @ nl @ nl
              @ ''The agent is now contacting the restaurant to ask: '' @ dq @ question args @ dq
              @ ''. Use get_latest_agent_status to check progress.'',
              st\<lparr>activeSpecializedAgents := (activeSpecializedAgents st)(channel \<mapsto> True)\<rparr>,
              Some \<lparr>task_appId = appId, task_userId = userId, task_channel = channel,
                    task_specialization = ''restaurant-inquiry'',
                    task_phoneNumber = q_phone_number args\<rparr>)))"

record order_args =
  o_phone_number :: string
  o_restaurant_name :: string
  o_customer_name :: string
  food_items :: string
  delivery_type :: string
  delivery_address :: string

definition validateOrder :: "string \<Rightarrow> order_args \<Rightarrow> store \<Rightarrow> string + string" where
  \<comment> \<open>what \<open>placePhoneOrderAgent\<close> does before it looks at the guard: \<open>Inl\<close> the error it
      returns, \<open>Inr\<close> the telephone number it goes on with\<close>
  "validateOrder userId args st =
     (case missingFields
             [(''phone_number'', o_phone_number args = []),
              (''restaurant_name'', o_restaurant_name args = []),
              (''customer_name'', o_customer_name args = []),
              (''food_items'', food_items args = []),
              (''delivery_type'', delivery_type args = []),
              (''delivery_address'', delivery_address args = [])] of
        Some error \<Rightarrow> Inl error
      | None \<Rightarrow>
          (case invalidCustomerName (o_customer_name args) of
             Some error \<Rightarrow> Inl error
           | None \<Rightarrow>
               (if o_phone_number args = ''auto'' \<or> \<not> phonePattern (o_phone_number args) then
                  (case findPhoneNumber userId (o_restaurant_name args) st of
                     Some foundPhone \<Rightarrow>
                       (if foundPhone \<noteq> [] then Inr foundPhone
                        else Inl (''Error: Could not find phone number for '' @ dq
                                  @ o_restaurant_name args @ dq
                                  @ '' in recent searches. Please search for the restaurant ''
                                  @ ''first to get the correct phone number.''))
                   | None \<Rightarrow>
                       Inl (''Error: Could not find phone number for '' @ dq
                            @ o_restaurant_name args @ dq
                            @ '' in recent searches. Please search for the restaurant ''
                            @ ''first to get the correct phone number.''))
                else Inr (o_phone_number args))))"

definition placePhoneOrderAgent ::
  "string \<Rightarrow> string \<Rightarrow> string \<Rightarrow> order_args \<Rightarrow> store \<Rightarrow> string \<times> store \<times> dispatch_task option" where
  "placePhoneOrderAgent appId userId channel args st =
     (case validateOrder userId args st of
        Inl error \<Rightarrow> (error, st, None)
      | Inr phoneNumber \<Rightarrow>
          (if guardHeld st channel then (alreadyActive, st, None)
           else
             (let isDelivery = (toLowerCase (delivery_type args) = ''delivery'');
                  orderType = (if isDelivery then ''delivery'' else ''takeout'')
              in (check_mark @ '' phone-ordering agent dispatched and calling ''
                  @ o_restaurant_name args @ '' ('' @ phoneNumber @ '')!'' @ nl @ nl
                  @ ''The agent is now contacting the restaurant to place your '' @ orderType
                  @ '' order. Use get_latest_agent_status to check progress.'',
                  st\<lparr>activeSpecializedAgents := (activeSpecializedAgents st)(channel \<mapsto> True)\<rparr>,
                  Some \<lparr>task_appId = appId, task_userId = userId, task_channel = channel,
                        task_specialization = ''phone-ordering'',
                        task_phoneNumber = phoneNumber\<rparr>))))"

record reservation_args =
  v_phone_number :: string
  v_restaurant_name :: string
  v_customer_name :: string
  party_size :: int
  time_preferences :: string

definition validateReservation :: "reservation_args \<Rightarrow> string option" where
  \<comment> \<open>what \<open>makeReservationAgent\<close> does before it looks at the guard: the error it returns\<close>
  "validateReservation args =
     (case missingFields
             [(''phone_number'', v_phone_number args = []),
              (''restaurant_name'', v_restaurant_name args = []),
              (''customer_name'', v_customer_name args = []),
              (''party_size'', party_size args = 0),
              (''time_preferences'', time_preferences args = [])] of
        Some error \<Rightarrow> Some error
      | None \<Rightarrow>
          (case invalidCustomerName (v_customer_name args) of
             Some error \<Rightarrow> Some error
           | None \<Rightarrow>
               (if \<not> phonePattern (v_phone_number args) then
                  Some (''Error: Invalid phone number format '' @ dq @ v_phone_number args @ dq
                        @ ''. Please use the exact phone number from YELP search results. ''
                        @ ''Never make up phone numbers.'')
                else None)))"

definition makeReservationAgent ::
  "string \<Rightarrow> string \<Rightarrow> string \<Rightarrow> reservation_args \<Rightarrow> store \<Rightarrow>
   string \<times> store \<times> dispatch_task option" where
  "makeReservationAgent appId userId channel args st =
     (case validateReservation args of
        Some error \<Rightarrow> (error, st, None)
      | None \<Rightarrow>
          (if guardHeld st channel then (alreadyActive, st, None)
           else
             (check_mark @ '' reservation agent dispatched and calling '' @ v_restaurant_name args
              @ '' ('' @ v_phone_number args @ '')!'' @ nl @ nl
              @ ''The agent is now contacting the restaurant to make your reservation for ''
              @ showInt (party_size args)
              @ '' people. Use get_latest_agent_status to check progress.'',
              st\<lparr>activeSpecializedAgents := (activeSpecializedAgents st)(channel \<mapsto> True)\<rparr>,
              Some \<lparr>task_appId = appId, task_userId = userId, task_channel = channel,
                    task_specialization = ''reservation-booking'',
                    task_phoneNumber = v_phone_number args\<rparr>)))"


subsection \<open>The stores the program reaches\<close>



section \<open>The tool-call loop (src/services/cerebrasService.ts)\<close>

record tool_call =
  tc_id :: string
  fn_name :: string
  fn_arguments :: string

datatype chat_message =
    SystemMessage string
  | UserMessage string
  | AssistantMessage "string option" "tool_call list"
  | ToolMessage string string

text \<open>
  A message of each role with its content; an assistant message also carries its tool calls
  and may have no content, a tool message also carries its \<open>tool_call_id\<close>.
\<close>

datatype msg_role = RoleSystem | RoleUser | RoleAssistant | RoleTool

fun role :: "chat_message \<Rightarrow> msg_role" where
  "role (SystemMessage c) = RoleSystem"
| "role (UserMessage c) = RoleUser"
| "role (AssistantMessage c calls) = RoleAssistant"
| "role (ToolMessage c i) = RoleTool"

datatype response_type = affirmation | data

text \<open>
  The handlers, \<open>JSON.parse\<close> and the table of response types are inputs of the loop. A
  handler works on a state of the world of type \<open>'w\<close>, which it may change, and returns a
  string or throws; the application id, the user and the channel are fixed in it.
\<close>

record ('a, 'w) dispatcher =
  jsonParse :: "string \<Rightarrow> thrown + 'a"
  versionedFunctions :: "string \<rightharpoonup> ('a \<Rightarrow> 'w \<Rightarrow> (thrown + string) \<times> 'w)"
  responseTypes :: "string \<rightharpoonup> response_type"

record 'w loop_state =
  fullMessages :: "chat_message list"
  hasDataTools :: bool
  executedFunctions :: "string set"
  world :: 'w
  invoked :: "tool_call list"

text \<open>
  The last field is not a variable of the program: it lists the tool calls whose handler
  was invoked, in order.
\<close>

datatype 's outcome = Done 's | Threw thrown 's

fun outcomeState :: "'s outcome \<Rightarrow> 's" where
  "outcomeState (Done s) = s"
| "outcomeState (Threw err s) = s"

definition lastN :: "nat \<Rightarrow> 'a list \<Rightarrow> 'a list" where
  \<comment> \<open>\<open>xs.slice(-n)\<close>\<close>
  "lastN n xs = drop (length xs - n) xs"

definition hasRecentCall :: "chat_message list \<Rightarrow> bool" where
  "hasRecentCall recentMessages =
     list_ex (\<lambda>msg.
        case msg of
          AssistantMessage c calls \<Rightarrow>
            (case c of
               Some content \<Rightarrow>
                 content \<noteq> []
                 \<and> (str_includes content ''Phone call initiated''
                    \<or> str_includes content ''call initiated''
                    \<or> str_includes content ''Calling''
                    \<or> str_includes content ''I'll call''
                    \<or> str_includes content ''Making a call'')
             | None \<Rightarrow> False)
        | ToolMessage content i \<Rightarrow>
            content \<noteq> []
            \<and> (str_includes content ''Phone call initiated successfully''
               \<or> str_includes content ''call initiated''
               \<or> str_includes content ''Call ID:'')
        | SystemMessage content \<Rightarrow> False
        | UserMessage content \<Rightarrow> False) recentMessages"

definition someoneJoined :: "chat_message list \<Rightarrow> bool" where
  "someoneJoined recentMessages =
     list_ex (\<lambda>msg.
        case msg of
          UserMessage c \<Rightarrow>
            c \<noteq> []
            \<and> (let content = toLowerCase c
               in str_includes content ''hello''
                  \<or> str_includes content ''hi ''
                  \<or> str_includes content ''hey''
                  \<or> str_includes content ''good morning''
                  \<or> str_includes content ''good afternoon''
                  \<or> str_includes content ''good evening''
                  \<or> str_includes content ''who is this''
                  \<or> str_includes content ''who's calling'')
        | SystemMessage content \<Rightarrow> False
        | AssistantMessage content calls \<Rightarrow> False
        | ToolMessage content i \<Rightarrow> False) recentMessages"

definition isPhoneCallFunction :: "string \<Rightarrow> bool" where
  "isPhoneCallFunction name =
     (name = ''call_hermes_phone'' \<or> name = ''call_phone'' \<or> name = ''call_sid_phone'')"

definition pushToolResult :: "string \<Rightarrow> tool_call \<Rightarrow> 'w loop_state \<Rightarrow> 'w loop_state" where
  \<comment> \<open>\<open>fullMessages.push(toolMessage)\<close> and \<open>hasDataTools = true\<close>\<close>
  "pushToolResult content toolCall s =
     s\<lparr>fullMessages := fullMessages s @ [ToolMessage content (tc_id toolCall)],
       hasDataTools := True\<rparr>"

definition processToolCall ::
  "('a, 'w) dispatcher \<Rightarrow> tool_call \<Rightarrow> 'w loop_state \<Rightarrow> 'w loop_state outcome" where
  \<comment> \<open>the body of the loop over \<open>choice.tool_calls\<close>\<close>
  "processToolCall d toolCall s =
     (if fn_name toolCall \<in> executedFunctions s then Done s
      else
        (case versionedFunctions d (fn_name toolCall) of
           None \<Rightarrow> Done s
         | Some handler \<Rightarrow>
             (let recentMessages = lastN 15 (fullMessages s)
              in if isPhoneCallFunction (fn_name toolCall)
                    \<and> (hasRecentCall recentMessages \<or> someoneJoined recentMessages) then
                   Done (pushToolResult
                     (if someoneJoined recentMessages then
                        ''A call is already active and someone has joined the conversation. ''
                        @ ''Continue talking with them instead of making another call.''
                      else
                        ''A call was already initiated recently. ''
                        @ ''The call should be connecting or active.'') toolCall s)
                 else
                   (let s1 = s\<lparr>executedFunctions := insert (fn_name toolCall) (executedFunctions s)\<rparr>
                    in case jsonParse d (fn_arguments toolCall) of
                         Inl err \<Rightarrow> Threw err s1
                       | Inr functionArgs \<Rightarrow>
                           (let s2 = s1\<lparr>invoked := invoked s1 @ [toolCall]\<rparr>
                            in case handler functionArgs (world s2) of
                                 (Inl err, w) \<Rightarrow> Threw err (s2\<lparr>world := w\<rparr>)
                               | (Inr result, w) \<Rightarrow>
                                   (let s3 = s2\<lparr>world := w\<rparr>
                                    in case responseTypes d (fn_name toolCall) of
                                         Some affirmation \<Rightarrow> Done (pushToolResult result toolCall s3)
                                       | Some data \<Rightarrow> Done (pushToolResult result toolCall s3)
                                       | None \<Rightarrow> Done s3))))))"

fun toolCallLoop ::
  "('a, 'w) dispatcher \<Rightarrow> tool_call list \<Rightarrow> 'w loop_state \<Rightarrow> 'w loop_state outcome" where
  "toolCallLoop d [] s = Done s"
| "toolCallLoop d (toolCall # rest) s =
     (case processToolCall d toolCall s of
        Done s' \<Rightarrow> toolCallLoop d rest s'
      | Threw err s' \<Rightarrow> Threw err s')"

text \<open>
  What holds of the state all along the loop: the name of every tool call whose handler was
  invoked is among the executed functions, and no two of these tool calls have the same name.
\<close>

definition loopInv :: "'w loop_state \<Rightarrow> bool" where
  "loopInv s = (fn_name ` set (invoked s) \<subseteq> executedFunctions s \<and> distinct (map fn_name (invoked s)))"

record completion_request =
  req_model :: string
  req_messages :: "chat_message list"
  req_tools :: bool

text \<open>
  A request to the completion provider: its model, its messages and whether it carries the
  tool schema. The sampling parameters go from the first request to the follow-up unchanged
  and are left out.
\<close>

record choice_message =
  cm_content :: "string option"
  tool_calls :: "tool_call list"

record completion =
  completion_id :: string
  choices :: "choice_message list"

record 'w turn =
  answer :: "thrown + completion"
  requests :: "completion_request list"
  turnState :: "'w loop_state option"

text \<open>
  What a turn comes to: the completion it returns or the error it throws, the requests it
  sent to the provider in order, and the state in which its tool-call loop ended, if it
  ran.
\<close>

definition failedToProcess :: thrown where
  "failedToProcess = JsError ''Error'' ''Failed to process chat completion with Cerebras''"

definition keptForFollowUp :: "chat_message \<Rightarrow> bool" where
  "keptForFollowUp msg = (role msg = RoleSystem \<or> role msg = RoleUser \<or> role msg = RoleTool)"

definition followUpRequest :: "completion_request \<Rightarrow> chat_message list \<Rightarrow> completion_request" where
  \<comment> \<open>the final request, from the messages the loop left\<close>
  "followUpRequest requestOptions msgs =
     \<lparr>req_model = req_model requestOptions,
      req_messages = (if req_model requestOptions \<noteq> ''qwen-3-32b'' then filter keptForFollowUp msgs
                      else msgs),
      req_tools = False\<rparr>"

definition initialLoopState :: "chat_message list \<Rightarrow> 'w \<Rightarrow> 'w loop_state" where
  "initialLoopState msgs w =
     \<lparr>fullMessages = msgs, hasDataTools = False, executedFunctions = {}, world = w,
      invoked = []\<rparr>"

definition processNonStreamingRequest ::
  "('a, 'w) dispatcher \<Rightarrow> (completion_request \<Rightarrow> thrown + completion) \<Rightarrow> completion_request \<Rightarrow>
   chat_message list \<Rightarrow> 'w \<Rightarrow> 'w turn" where
  \<comment> \<open>\<open>create\<close> is \<open>getCerebrasClient().chat.completions.create\<close>\<close>
  "processNonStreamingRequest d create requestOptions fullMessages0 w =
     (case create requestOptions of
        Inl err \<Rightarrow> \<lparr>answer = Inl failedToProcess, requests = [requestOptions], turnState = None\<rparr>
      | Inr response \<Rightarrow>
          (case choices response of
             [] \<Rightarrow> \<lparr>answer = Inr response, requests = [requestOptions], turnState = None\<rparr>
           | choice # others \<Rightarrow>
               (if tool_calls choice \<noteq> [] then
                  (case toolCallLoop d (tool_calls choice)
                          (initialLoopState
                             (fullMessages0 @ [AssistantMessage (cm_content choice) (tool_calls choice)])
                             w) of
                     Threw err s \<Rightarrow>
                       \<lparr>answer = Inl failedToProcess, requests = [requestOptions],
                        turnState = Some s\<rparr>
                   | Done s \<Rightarrow>
                       (if hasDataTools s then
                          (let finalRequest = followUpRequest requestOptions (fullMessages s)
                           in \<lparr>answer = (case create finalRequest of
                                           Inl err \<Rightarrow> Inl failedToProcess
                                         | Inr finalResponse \<Rightarrow> Inr finalResponse),
                               requests = [requestOptions, finalRequest],
                               turnState = Some s\<rparr>)
                        else
                          \<lparr>answer = Inr response, requests = [requestOptions],
                           turnState = Some s\<rparr>))
                else \<lparr>answer = Inr response, requests = [requestOptions], turnState = None\<rparr>)))"


section \<open>Example data\<close>

text \<open>
  A configuration with nothing missing, an outside world in which provisioning and the call
  succeed, and the stores of a conversation on channel c1: \<open>held1\<close> after a first order was
  dispatched, \<open>active1\<close> after its agent was created and is tracked. Then four worlds
  in which the dispatch fails.
\<close>

definition goodConfig :: app_config where
  "goodConfig =
     \<lparr>convoAiBaseUrl = ''https://convo.example/projects'', specializedAgentUrl = ''https://llm.example'',
      specializedAgentApiKey = ''key'', ttsVendor = ''elevenlabs'', elevenlabsApiKey = ''k'',
      elevenlabsModelId = ''m'', elevenlabsVoiceId = ''v'', microsoftKey = [],
      microsoftRegion = [], microsoftVoiceName = []\<rparr>"

definition goodEnv :: env where
  "goodEnv =
     \<lparr>config = goodConfig, timestamp = 1000, randomSuffix = ''abc123'',
      joinOutcome = JoinOk (Some ''a1''), nowStored = 1001, nowAction = 1001,
      telephony = (\<lambda>mode name. Inr ''Call started'')\<rparr>"

definition order1 :: order_args where
  "order1 =
     \<lparr>o_phone_number = ''+15551234567'', o_restaurant_name = ''Tony's Pizza'',
      o_customer_name = ''Ada Byron'', food_items = ''one margherita'',
      delivery_type = ''pickup'', delivery_address = ''none''\<rparr>"

definition held1 :: store where
  "held1 = emptyStore\<lparr>activeSpecializedAgents := [''c1'' \<mapsto> True]\<rparr>"

definition task1 :: dispatch_task where
  "task1 =
     \<lparr>task_appId = ''app'', task_userId = ''u1'', task_channel = ''c1'',
      task_specialization = ''phone-ordering'', task_phoneNumber = ''+15551234567''\<rparr>"

definition active1 :: store where
  "active1 = runDetached goodEnv task1 held1"

definition session1 :: polling_session where
  "session1 =
     \<lparr>ps_agentId = ''a1'', ps_userId = ''u1'', ps_channel = ''c1'', ps_type = ''phone-ordering'',
      pollCount = 0, lastStatus = ''STARTING'', consecutiveUnchangedCount = 0, intervalId = None\<rparr>"

definition noArgs :: stop_args where
  "noArgs = \<lparr>agent_id = None, reason = None\<rparr>"

definition inquiry1 :: inquiry_args where
  "inquiry1 = \<lparr>q_phone_number = ''+15551234567'', q_restaurant_name = ''Tony's Pizza'',
               question = ''Are you open on Sunday?''\<rparr>"

definition reservation1 :: reservation_args where
  "reservation1 = \<lparr>v_phone_number = ''+15551234567'', v_restaurant_name = ''Tony's Pizza'',
                   v_customer_name = ''Ada Byron'', party_size = 4,
                   time_preferences = ''Friday 7pm''\<rparr>"

definition noBaseUrl :: env where
  "noBaseUrl = goodEnv\<lparr>config := goodConfig\<lparr>convoAiBaseUrl := []\<rparr>\<rparr>"

definition joinRefused :: env where
  "joinRefused = goodEnv\<lparr>joinOutcome := JoinNotOk 503 ''Service Unavailable'' ''busy''\<rparr>"

definition callRefused :: env where
  "callRefused = goodEnv\<lparr>telephony := (\<lambda>mode name. Inr ''Failed to initiate call'')\<rparr>"

definition joinTimedOut :: env where
  "joinTimedOut = goodEnv\<lparr>joinOutcome := JoinThrows (JsError ''AbortError'' ''The operation timed out'')\<rparr>"


text \<open>
  Three search results, and a turn of the tool-call loop: a registry with the one handler
  \<open>order_sandwich\<close>, which counts its invocations in the world, and a model that asks for
  that function twice when it is given the tools and answers in words when it is not.
\<close>

definition tonys :: yelp_result where
  "tonys = \<lparr>y_name = ''Tony's Pizza'', y_phone = ''+15551234567'', y_id = ''a''\<rparr>"

definition tacos :: yelp_result where
  "tacos = \<lparr>y_name = ''Tony's Tacos'', y_phone = ''+15550000111'', y_id = ''t''\<rparr>"

definition joes :: yelp_result where
  "joes = \<lparr>y_name = ''Joe's'', y_phone = ''+15551234567'', y_id = ''a''\<rparr>"

definition sandwichCall :: "string \<Rightarrow> tool_call" where
  "sandwichCall i = \<lparr>tc_id = i, fn_name = ''order_sandwich'', fn_arguments = ''{}''\<rparr>"

definition sandwichShop :: "(string, nat) dispatcher" where
  "sandwichShop =
     \<lparr>jsonParse = (\<lambda>text. Inr text),
      versionedFunctions = [''order_sandwich'' \<mapsto> (\<lambda>args w. (Inr ''Sandwich ordered'', Suc w))],
      responseTypes = [''order_sandwich'' \<mapsto> affirmation]\<rparr>"

definition sandwichModel :: "completion_request \<Rightarrow> thrown + completion" where
  "sandwichModel request =
     (if req_tools request then
        Inr \<lparr>completion_id = ''first'',
             choices = [\<lparr>cm_content = None, tool_calls = [sandwichCall ''t1'', sandwichCall ''t2'']\<rparr>]\<rparr>
      else
        Inr \<lparr>completion_id = ''final'',
             choices = [\<lparr>cm_content = Some ''Your sandwich is ordered.'', tool_calls = []\<rparr>]\<rparr>)"

definition sandwichRequest :: "string \<Rightarrow> completion_request" where
  "sandwichRequest m =
     \<lparr>req_model = m, req_messages = [UserMessage ''a ham sandwich please''], req_tools = True\<rparr>"

text \<open>
  A registry with the one handler \<open>call_phone\<close>, and the synthetic result that stands in for
  a call when one was initiated recently.
\<close>

definition phoneCall :: "string \<Rightarrow> tool_call" where
  "phoneCall i = \<lparr>tc_id = i, fn_name = ''call_phone'', fn_arguments = ''{}''\<rparr>"

definition phoneDesk :: "(string, nat) dispatcher" where
  "phoneDesk =
     \<lparr>jsonParse = (\<lambda>text. Inr text),
      versionedFunctions =
        [''call_phone'' \<mapsto> (\<lambda>args w. (Inr ''Phone call initiated successfully'', Suc w))],
      responseTypes = [''call_phone'' \<mapsto> affirmation]\<rparr>"

definition callAlreadyInitiated :: string where
  "callAlreadyInitiated =
     ''A call was already initiated recently. The call should be connecting or active.''"


section \<open>Properties\<close>

subsection \<open>Telephone numbers\<close>

lemma str_includes_sublist: "str_includes s t = sublist t s"
  by (induction s) (auto simp: sublist_Cons_right)

text \<open>
  C10. For every input, formatPhoneNumber returns a plus sign followed by the digits of the
  input, with a 1 put in front of them whenever they do not already start with 1. The result
  therefore always begins with +1 and otherwise holds digits only, and the British number
  +44 20 7946 0958 comes back under the country code 1.
\<close>

theorem formatPhoneNumber_plus_one:
  "formatPhoneNumber phone =
     ''+'' @ (if startsWith (filter isDigit phone) ''1'' then [] else ''1'') @ filter isDigit phone
   \<and> prefix ''+1'' (formatPhoneNumber phone)
   \<and> list_all isDigit (tl (formatPhoneNumber phone))
   \<and> formatPhoneNumber ''+44 20 7946 0958'' = ''+1442079460958''"
proof -
  let ?ds = "filter isDigit phone"
  have shape: "formatPhoneNumber phone = ''+'' @ (if startsWith ?ds ''1'' then [] else ''1'') @ ?ds"
    by (simp add: formatPhoneNumber_def Let_def)
  have one: "isDigit CHR ''1''"
    by (simp add: isDigit_def)
  have starts: "startsWith ?ds ''1'' \<Longrightarrow> prefix ''+1'' (''+'' @ ?ds)"
    by (simp add: startsWith_def)
  have pre: "prefix ''+1'' (formatPhoneNumber phone)"
    using starts by (simp add: shape)
  have digs: "list_all isDigit (tl (formatPhoneNumber phone))"
    using one by (simp add: shape list_all_iff)
  have uk: "formatPhoneNumber ''+44 20 7946 0958'' = ''+1442079460958''"
    by (simp add: formatPhoneNumber_def startsWith_def isDigit_def)
  from shape pre digs uk show ?thesis by blast
qed

subsection \<open>Lists, strings and maps\<close>



lemma find_None_channel:
  "(\<forall>p \<in> set sessions. ps_channel (snd p) \<noteq> channel) \<Longrightarrow>
   find (\<lambda>(key, session). ps_channel session = channel) sessions = None"
  by (induction sessions) (auto split: prod.splits)

subsection \<open>The call action of a channel\<close>

lemma storeCallAction_keeps_no_empty_channel:
  "callActionStore st [] = None \<Longrightarrow> callActionStore (storeCallAction now channel action st) [] = None"
  by (simp add: storeCallAction_def)

lemma getCallAction_keeps_no_empty_channel:
  "callActionStore st [] = None \<Longrightarrow> callActionStore (snd (getCallAction now channel st)) [] = None"
  by (simp add: getCallAction_def Let_def split: option.splits)

text \<open>
  C8. On a store that holds no preference under the empty channel (storeCallAction never
  writes one and getCallAction keeps it so), getCallAction returns call_hermes for every
  channel without a stored preference, leaving the store as it is, and for every channel
  whose stored preference is more than one hour old, where it also deletes the stale entry.
  A stored preference that is not more than one hour old is returned as stored, and the
  store is left as it is.
\<close>

theorem getCallAction_default_and_expiry:
  assumes "callActionStore st [] = None"
  shows "(callActionStore st channel = None \<longrightarrow> getCallAction now channel st = (''call_hermes'', st))
    \<and> (\<forall>stored. callActionStore st channel = Some stored \<and> now - ca_timestamp stored > 60 * 60 * 1000 \<longrightarrow>
          fst (getCallAction now channel st) = ''call_hermes''
          \<and> snd (getCallAction now channel st) = st\<lparr>callActionStore := (callActionStore st)(channel := None)\<rparr>
          \<and> callActionStore (snd (getCallAction now channel st)) channel = None)
    \<and> (\<forall>stored. callActionStore st channel = Some stored \<and> now - ca_timestamp stored \<le> 60 * 60 * 1000 \<longrightarrow>
          getCallAction now channel st = (callAction stored, st))"
proof (cases "channel = []")
  case True
  with assms show ?thesis by (simp add: getCallAction_def)
next
  case False
  then show ?thesis by (auto simp: getCallAction_def Let_def)
qed

text \<open>
  The three cases at work: channel c2 has no preference, and the preference of channel c1,
  stored at time 100, is read one millisecond after and exactly at its expiry.
\<close>

theorem getCallAction_default_and_expiry_witness:
  "callActionStore (storeCallAction 100 ''c1'' ''live'' emptyStore) [] = None
   \<and> getCallAction 200 ''c2'' (storeCallAction 100 ''c1'' ''live'' emptyStore)
       = (''call_hermes'', storeCallAction 100 ''c1'' ''live'' emptyStore)
   \<and> fst (getCallAction 3600101 ''c1'' (storeCallAction 100 ''c1'' ''live'' emptyStore)) = ''call_hermes''
   \<and> callActionStore (snd (getCallAction 3600101 ''c1'' (storeCallAction 100 ''c1'' ''live'' emptyStore))) ''c1'' = None
   \<and> getCallAction 3600100 ''c1'' (storeCallAction 100 ''c1'' ''live'' emptyStore)
       = (''live'', storeCallAction 100 ''c1'' ''live'' emptyStore)"
proof -
  let ?st = "storeCallAction 100 ''c1'' ''live'' emptyStore"
  have inv: "callActionStore ?st [] = None"
    by (simp add: storeCallAction_def emptyStore_def)
  have here: "callActionStore ?st ''c1'' = Some \<lparr>callAction = ''live'', ca_timestamp = 100\<rparr>"
    by (simp add: storeCallAction_def)
  have there: "callActionStore ?st ''c2'' = None"
    by (simp add: storeCallAction_def emptyStore_def)
  show ?thesis
    using inv here there
      getCallAction_default_and_expiry [OF inv, of "''c2''" 200]
      getCallAction_default_and_expiry [OF inv, of "''c1''" 3600101]
      getCallAction_default_and_expiry [OF inv, of "''c1''" 3600100]
    by simp
qed

subsection \<open>Stopping without a session\<close>

lemma locateSession_no_match:
  "\<not> truthy a \<Longrightarrow> \<forall>p \<in> set sessions. ps_channel (snd p) \<noteq> channel \<Longrightarrow>
   locateSession channel a sessions = None"
  by (simp add: locateSession_def find_None_channel)

lemma locateSession_explicit:
  "a \<noteq> [] \<Longrightarrow> locateSession channel (Some a) sessions = Some (a, channel @ ''-'' @ a)"
  by (simp add: locateSession_def truthy_def)

text \<open>
  C9. When stop_agent_polling is called without an agent id for a channel that no polling
  session belongs to, or with an agent id under whose session key no polling session is
  stored, it returns one of its two "no active" messages and leaves every store as it is:
  the dispatch guard of the channel is held afterwards exactly if it was held before, and
  the conversation context of the channel is untouched.
\<close>

theorem stopAgentPolling_without_session:
  assumes "(\<not> truthy (agent_id args) \<and> (\<forall>p \<in> set (activePollingSessions st). ps_channel (snd p) \<noteq> channel))
           \<or> (\<exists>a. agent_id args = Some a \<and> a \<noteq> []
                  \<and> map_of (activePollingSessions st) (channel @ ''-'' @ a) = None)"
  shows "snd (stopAgentPolling channel args st) = st
     \<and> (fst (stopAgentPolling channel args st) = ''No active agent found to stop.''
        \<or> (\<exists>a. agent_id args = Some a
               \<and> fst (stopAgentPolling channel args st)
                   = ''No active polling session found for agent '' @ a @ ''.''))
     \<and> guardHeld (snd (stopAgentPolling channel args st)) channel = guardHeld st channel
     \<and> conversationContext (snd (stopAgentPolling channel args st)) channel
         = conversationContext st channel"
  using assms
proof (elim disjE conjE exE)
  assume "\<not> truthy (agent_id args)"
    and "\<forall>p \<in> set (activePollingSessions st). ps_channel (snd p) \<noteq> channel"
  then have "locateSession channel (agent_id args) (activePollingSessions st) = None"
    by (rule locateSession_no_match)
  then show ?thesis by (simp add: stopAgentPolling_def)
next
  fix a
  assume a: "agent_id args = Some a" "a \<noteq> []"
    and none: "map_of (activePollingSessions st) (channel @ ''-'' @ a) = None"
  have "locateSession channel (agent_id args) (activePollingSessions st)
          = Some (a, channel @ ''-'' @ a)"
    using a by (simp add: locateSession_explicit)
  with none a show ?thesis by (simp add: stopAgentPolling_def)
qed

text \<open>
  A channel whose guard is held while no polling session exists: neither form of the call
  releases the guard.
\<close>

theorem stopAgentPolling_without_session_witness:
  "guardHeld (emptyStore\<lparr>activeSpecializedAgents := [''c1'' \<mapsto> True]\<rparr>) ''c1''
   \<and> stopAgentPolling ''c1'' \<lparr>agent_id = None, reason = None\<rparr>
        (emptyStore\<lparr>activeSpecializedAgents := [''c1'' \<mapsto> True]\<rparr>)
      = (''No active agent found to stop.'', emptyStore\<lparr>activeSpecializedAgents := [''c1'' \<mapsto> True]\<rparr>)
   \<and> guardHeld (snd (stopAgentPolling ''c1'' \<lparr>agent_id = Some ''a1'', reason = None\<rparr>
        (emptyStore\<lparr>activeSpecializedAgents := [''c1'' \<mapsto> True]\<rparr>))) ''c1''"
proof -
  let ?st = "emptyStore\<lparr>activeSpecializedAgents := [''c1'' \<mapsto> True]\<rparr>"
  have held: "guardHeld ?st ''c1''"
    by (simp add: guardHeld_def)
  have h1: "(\<not> truthy (agent_id \<lparr>agent_id = None, reason = None\<rparr>)
             \<and> (\<forall>p \<in> set (activePollingSessions ?st). ps_channel (snd p) \<noteq> ''c1''))
            \<or> (\<exists>a. agent_id \<lparr>agent_id = None, reason = None\<rparr> = Some a \<and> a \<noteq> []
                  \<and> map_of (activePollingSessions ?st) (''c1'' @ ''-'' @ a) = None)"
    by (simp add: truthy_def emptyStore_def)
  have h2: "(\<not> truthy (agent_id \<lparr>agent_id = Some ''a1'', reason = None\<rparr>)
             \<and> (\<forall>p \<in> set (activePollingSessions ?st). ps_channel (snd p) \<noteq> ''c1''))
            \<or> (\<exists>a. agent_id \<lparr>agent_id = Some ''a1'', reason = None\<rparr> = Some a \<and> a \<noteq> []
                  \<and> map_of (activePollingSessions ?st) (''c1'' @ ''-'' @ a) = None)"
    by (simp add: emptyStore_def)
  show ?thesis
    using held stopAgentPolling_without_session [OF h1] stopAgentPolling_without_session [OF h2]
    by (auto simp: prod_eq_iff)
qed

subsection \<open>The example stores\<close>

lemma validateOrder_order1: "validateOrder u order1 st = Inr ''+15551234567''"
  by (simp add: validateOrder_def order1_def missingFields_def invalidCustomerName_def
      toLowerChar_def jsLength_def utf16Units_def phonePattern_def isDigit_def)

lemma dispatch_order1:
  "placePhoneOrderAgent ''app'' ''u1'' ''c1'' order1 emptyStore
     = (check_mark @ '' phone-ordering agent dispatched and calling Tony's Pizza (+15551234567)!''
        @ nl @ nl @ ''The agent is now contacting the restaurant to place your takeout order. ''
        @ ''Use get_latest_agent_status to check progress.'', held1, Some task1)"
  by (simp add: placePhoneOrderAgent_def validateOrder_order1 guardHeld_def emptyStore_def
      held1_def task1_def) (simp add: order1_def toLowerChar_def)

lemma missingConfig_good: "missingConfig goodConfig = []"
  by (simp add: missingConfig_def goodConfig_def)

lemma getTTSConfig_good: "getTTSConfig goodConfig = Inr ''elevenlabs''"
  by (simp add: getTTSConfig_def goodConfig_def)

lemma getCallAction_guard:
  "activeSpecializedAgents (snd (getCallAction now channel st)) = activeSpecializedAgents st"
  by (simp add: getCallAction_def Let_def split: option.splits)

lemma startAgentPolling_guard:
  "activeSpecializedAgents (startAgentPolling appId userId channel agentId type st)
     = activeSpecializedAgents st"
  by (simp add: startAgentPolling_def Let_def clearInterval_def split: option.splits)

lemma storeAgentInfo_guard:
  "activeSpecializedAgents (storeAgentInfo now userId agentId type channel st)
     = activeSpecializedAgents st"
  by (simp add: storeAgentInfo_def)

lemma createAgentTry_guard:
  "activeSpecializedAgents (snd (createAgentTry e appId userId channel specialization phoneNumber st))
     = activeSpecializedAgents st"
proof -
  have a: "\<And>a st. activeSpecializedAgents (case a of None \<Rightarrow> st | Some i \<Rightarrow> if i \<noteq> [] then storeAgentInfo (nowStored e) userId i specialization
        (''specialized-'' @ specialization @ ''-'' @ showInt (timestamp e) @ ''-'' @ randomSuffix e) st else st) = activeSpecializedAgents st"
    by (simp add: storeAgentInfo_guard split: option.splits)
  show ?thesis
    unfolding createAgentTry_def Let_def
    by (auto simp: startAgentPolling_guard storeAgentInfo_guard  split: sum.splits join_outcome.splits prod.splits option.splits if_splits
        dest!: arg_cong [where f = "\<lambda>p. activeSpecializedAgents (snd p)"] simp: getCallAction_guard)
qed

lemma createAgent_never_rejects:
  "\<exists>response st'. createSpecializedVoiceAgent e appId userId channel specialization phoneNumber st
      = (Inr response, st')"
  by (cases "createAgentTry e appId userId channel specialization phoneNumber st")
     (auto simp: createSpecializedVoiceAgent_def split: sum.splits)

lemma runDetached_guard:
  "activeSpecializedAgents (runDetached e t st) = activeSpecializedAgents st"
proof -
  obtain response st' where r: "createSpecializedVoiceAgent e (task_appId t) (task_userId t)
      (task_channel t) (task_specialization t) (task_phoneNumber t) st = (Inr response, st')"
    using createAgent_never_rejects by blast
  then have "st' = snd (createAgentTry e (task_appId t) (task_userId t)
      (task_channel t) (task_specialization t) (task_phoneNumber t) st)"
    by (auto simp: createSpecializedVoiceAgent_def split: prod.splits sum.splits)
  then show ?thesis
    by (simp add: runDetached_def r createAgentTry_guard)
qed

lemma active1_sessions: "activePollingSessions active1 = [(''c1-a1'', session1)]"
  by (simp add: active1_def runDetached_def createSpecializedVoiceAgent_def createAgentTry_def
      task1_def goodEnv_def missingConfig_good getTTSConfig_good Let_def getCallAction_def
      held1_def emptyStore_def storeAgentInfo_def placeCall_def startAgentPolling_def
      session1_def)

lemma active1_guard: "guardHeld active1 ''c1''"
  by (simp add: active1_def runDetached_guard guardHeld_def held1_def)

lemma locate_active1:
  "locateSession ''c1'' None (activePollingSessions active1) = Some (''a1'', ''c1-a1'')"
  by (simp add: active1_sessions locateSession_def truthy_def session1_def)



subsection \<open>What holds of every store the program reaches\<close>













subsection \<open>Stopping a session\<close>

lemma stopAgentPolling_found:
  assumes loc: "locateSession channel (agent_id args) (activePollingSessions st) = Some (agentId, sessionKey)"
    and ses: "map_of (activePollingSessions st) sessionKey = Some session"
  shows "stopAgentPolling channel args st =
     (check_mark @ '' Stopped monitoring agent '' @ agentId @ ''. Reason: ''
        @ orElse (reason args) ''manually stopped'',
      st\<lparr>timers := timers st - set_option (intervalId session),
         activePollingSessions := AList.delete sessionKey (activePollingSessions st),
         pollingCallbacks := (pollingCallbacks st)(channel := None),
         activeSpecializedAgents := (activeSpecializedAgents st)(channel := None)\<rparr>)"
  using loc ses
  by (cases "intervalId session") (simp_all add: stopAgentPolling_def Let_def clearInterval_def)



subsection \<open>The dispatch guard\<close>

lemma missingFields_not_active: "missingFields checks = Some error \<Longrightarrow> error \<noteq> alreadyActive"
  by (auto simp: missingFields_def Let_def alreadyActive_def split: if_splits)

lemma invalidCustomerName_not_active:
  "invalidCustomerName name = Some error \<Longrightarrow> error \<noteq> alreadyActive"
  by (auto simp: invalidCustomerName_def alreadyActive_def split: if_splits)

lemma validateInquiry_not_active:
  "validateInquiry qa = Some error \<Longrightarrow> error \<noteq> alreadyActive"
  unfolding validateInquiry_def by (rule missingFields_not_active)

lemma validateOrder_not_active:
  "validateOrder userId oa st = Inl error \<Longrightarrow> error \<noteq> alreadyActive"
  unfolding validateOrder_def
  by (auto simp: alreadyActive_def split: option.splits if_splits
      dest: missingFields_not_active invalidCustomerName_not_active)

lemma validateReservation_not_active:
  "validateReservation ra = Some error \<Longrightarrow> error \<noteq> alreadyActive"
  unfolding validateReservation_def
  by (auto simp: alreadyActive_def split: option.splits if_splits
      dest: missingFields_not_active invalidCustomerName_not_active)

lemma dispatch_reports_check:
  "validateInquiry qa = Some error \<Longrightarrow> fst (callAndAskQuestionAgent appId userId channel qa st) = error"
  "validateOrder userId oa st = Inl error \<Longrightarrow> fst (placePhoneOrderAgent appId userId channel oa st) = error"
  "validateReservation ra = Some error \<Longrightarrow> fst (makeReservationAgent appId userId channel ra st) = error"
  by (simp_all add: callAndAskQuestionAgent_def placePhoneOrderAgent_def makeReservationAgent_def)

lemma not_guardHeld_dispatch:
  assumes "\<not> guardHeld st channel"
  shows "fst (callAndAskQuestionAgent appId userId channel qa st) \<noteq> alreadyActive"
    and "fst (placePhoneOrderAgent appId userId channel oa st) \<noteq> alreadyActive"
    and "fst (makeReservationAgent appId userId channel ra st) \<noteq> alreadyActive"
    and "validateInquiry qa = None \<longrightarrow> snd (snd (callAndAskQuestionAgent appId userId channel qa st)) \<noteq> None"
    and "(\<exists>p. validateOrder userId oa st = Inr p) \<longrightarrow> snd (snd (placePhoneOrderAgent appId userId channel oa st)) \<noteq> None"
    and "validateReservation ra = None \<longrightarrow> snd (snd (makeReservationAgent appId userId channel ra st)) \<noteq> None"
proof -
  show "fst (callAndAskQuestionAgent appId userId channel qa st) \<noteq> alreadyActive"
  proof (cases "validateInquiry qa")
    case None
    with assms show ?thesis
      by (simp add: callAndAskQuestionAgent_def alreadyActive_def check_mark_def)
  next
    case (Some error)
    then show ?thesis
      by (simp add: dispatch_reports_check validateInquiry_not_active)
  qed
  show "fst (placePhoneOrderAgent appId userId channel oa st) \<noteq> alreadyActive"
  proof (cases "validateOrder userId oa st")
    case (Inl error)
    then show ?thesis
      by (simp add: dispatch_reports_check validateOrder_not_active)
  next
    case (Inr phoneNumber)
    with assms show ?thesis
      by (simp add: placePhoneOrderAgent_def Let_def alreadyActive_def check_mark_def)
  qed
  show "fst (makeReservationAgent appId userId channel ra st) \<noteq> alreadyActive"
  proof (cases "validateReservation ra")
    case None
    with assms show ?thesis
      by (simp add: makeReservationAgent_def alreadyActive_def check_mark_def)
  next
    case (Some error)
    then show ?thesis
      by (simp add: dispatch_reports_check validateReservation_not_active)
  qed
  show "validateInquiry qa = None \<longrightarrow> snd (snd (callAndAskQuestionAgent appId userId channel qa st)) \<noteq> None"
    using assms by (simp add: callAndAskQuestionAgent_def)
  show "(\<exists>p. validateOrder userId oa st = Inr p) \<longrightarrow> snd (snd (placePhoneOrderAgent appId userId channel oa st)) \<noteq> None"
    using assms by (auto simp: placePhoneOrderAgent_def Let_def)
  show "validateReservation ra = None \<longrightarrow> snd (snd (makeReservationAgent appId userId channel ra st)) \<noteq> None"
    using assms by (simp add: makeReservationAgent_def)
qed

lemma findPhoneNumber_index:
  "restaurantIndex st' = restaurantIndex st \<Longrightarrow>
   findPhoneNumber userId name st' = findPhoneNumber userId name st"
  by (simp add: findPhoneNumber_def)

lemma validateOrder_index:
  assumes "restaurantIndex st' = restaurantIndex st"
  shows "validateOrder userId oa st' = validateOrder userId oa st"
  unfolding validateOrder_def by (simp only: findPhoneNumber_index [OF assms])

text \<open>
  C1, as amended. While the dispatch guard of a channel is held, a call of any of the three
  wrappers for that channel returns with the stores as they were and without starting an
  agent. The string returned is the "already active" error when the arguments pass the
  checks that the wrapper makes before it looks at the guard; when they do not, it is the
  error of the check that failed, which is never the "already active" error. After a
  stop_agent_polling that located a session of the channel, the guard is released and no
  call of a wrapper for the channel is answered with the "already active" error; a call
  whose arguments pass the checks starts an agent.
\<close>

theorem guard_rejects_dispatch:
  assumes held: "guardHeld st channel"
  shows "snd (callAndAskQuestionAgent appId userId channel qa st) = (st, None)
    \<and> snd (placePhoneOrderAgent appId userId channel oa st) = (st, None)
    \<and> snd (makeReservationAgent appId userId channel ra st) = (st, None)
    \<and> (validateInquiry qa = None \<longrightarrow> fst (callAndAskQuestionAgent appId userId channel qa st) = alreadyActive)
    \<and> (\<forall>error. validateInquiry qa = Some error \<longrightarrow>
          fst (callAndAskQuestionAgent appId userId channel qa st) = error \<and> error \<noteq> alreadyActive)
    \<and> ((\<exists>p. validateOrder userId oa st = Inr p) \<longrightarrow> fst (placePhoneOrderAgent appId userId channel oa st) = alreadyActive)
    \<and> (\<forall>error. validateOrder userId oa st = Inl error \<longrightarrow>
          fst (placePhoneOrderAgent appId userId channel oa st) = error \<and> error \<noteq> alreadyActive)
    \<and> (validateReservation ra = None \<longrightarrow> fst (makeReservationAgent appId userId channel ra st) = alreadyActive)
    \<and> (\<forall>error. validateReservation ra = Some error \<longrightarrow>
          fst (makeReservationAgent appId userId channel ra st) = error \<and> error \<noteq> alreadyActive)
    \<and> str_includes alreadyActive ''already active''
    \<and> (\<forall>sargs agentId sessionKey session.
          locateSession channel (agent_id sargs) (activePollingSessions st) = Some (agentId, sessionKey)
          \<and> map_of (activePollingSessions st) sessionKey = Some session \<longrightarrow>
            \<not> guardHeld (snd (stopAgentPolling channel sargs st)) channel
          \<and> fst (callAndAskQuestionAgent appId userId channel qa (snd (stopAgentPolling channel sargs st))) \<noteq> alreadyActive
          \<and> fst (placePhoneOrderAgent appId userId channel oa (snd (stopAgentPolling channel sargs st))) \<noteq> alreadyActive
          \<and> fst (makeReservationAgent appId userId channel ra (snd (stopAgentPolling channel sargs st))) \<noteq> alreadyActive
          \<and> (validateInquiry qa = None \<longrightarrow>
                snd (snd (callAndAskQuestionAgent appId userId channel qa (snd (stopAgentPolling channel sargs st)))) \<noteq> None)
          \<and> ((\<exists>p. validateOrder userId oa st = Inr p) \<longrightarrow>
                snd (snd (placePhoneOrderAgent appId userId channel oa (snd (stopAgentPolling channel sargs st)))) \<noteq> None)
          \<and> (validateReservation ra = None \<longrightarrow>
                snd (snd (makeReservationAgent appId userId channel ra (snd (stopAgentPolling channel sargs st)))) \<noteq> None))"
proof -
  have q: "snd (callAndAskQuestionAgent appId userId channel qa st) = (st, None)"
    using held by (simp add: callAndAskQuestionAgent_def split: option.splits)
  have o: "snd (placePhoneOrderAgent appId userId channel oa st) = (st, None)"
    using held by (simp add: placePhoneOrderAgent_def split: sum.splits)
  have r: "snd (makeReservationAgent appId userId channel ra st) = (st, None)"
    using held by (simp add: makeReservationAgent_def split: option.splits)
  have q': "validateInquiry qa = None \<longrightarrow> fst (callAndAskQuestionAgent appId userId channel qa st) = alreadyActive"
    using held by (simp add: callAndAskQuestionAgent_def)
  have o': "(\<exists>p. validateOrder userId oa st = Inr p) \<longrightarrow> fst (placePhoneOrderAgent appId userId channel oa st) = alreadyActive"
    using held by (auto simp: placePhoneOrderAgent_def)
  have r': "validateReservation ra = None \<longrightarrow> fst (makeReservationAgent appId userId channel ra st) = alreadyActive"
    using held by (simp add: makeReservationAgent_def)
  have qe: "\<forall>error. validateInquiry qa = Some error \<longrightarrow>
      fst (callAndAskQuestionAgent appId userId channel qa st) = error \<and> error \<noteq> alreadyActive"
    by (simp add: dispatch_reports_check validateInquiry_not_active)
  have oe: "\<forall>error. validateOrder userId oa st = Inl error \<longrightarrow>
      fst (placePhoneOrderAgent appId userId channel oa st) = error \<and> error \<noteq> alreadyActive"
    by (simp add: dispatch_reports_check validateOrder_not_active)
  have re: "\<forall>error. validateReservation ra = Some error \<longrightarrow>
      fst (makeReservationAgent appId userId channel ra st) = error \<and> error \<noteq> alreadyActive"
    by (simp add: dispatch_reports_check validateReservation_not_active)
  have wording: "str_includes alreadyActive ''already active''"
    by (simp add: alreadyActive_def)
  have after: "\<forall>sargs agentId sessionKey session.
          locateSession channel (agent_id sargs) (activePollingSessions st) = Some (agentId, sessionKey)
          \<and> map_of (activePollingSessions st) sessionKey = Some session \<longrightarrow>
            \<not> guardHeld (snd (stopAgentPolling channel sargs st)) channel
          \<and> fst (callAndAskQuestionAgent appId userId channel qa (snd (stopAgentPolling channel sargs st))) \<noteq> alreadyActive
          \<and> fst (placePhoneOrderAgent appId userId channel oa (snd (stopAgentPolling channel sargs st))) \<noteq> alreadyActive
          \<and> fst (makeReservationAgent appId userId channel ra (snd (stopAgentPolling channel sargs st))) \<noteq> alreadyActive
          \<and> (validateInquiry qa = None \<longrightarrow>
                snd (snd (callAndAskQuestionAgent appId userId channel qa (snd (stopAgentPolling channel sargs st)))) \<noteq> None)
          \<and> ((\<exists>p. validateOrder userId oa st = Inr p) \<longrightarrow>
                snd (snd (placePhoneOrderAgent appId userId channel oa (snd (stopAgentPolling channel sargs st)))) \<noteq> None)
          \<and> (validateReservation ra = None \<longrightarrow>
                snd (snd (makeReservationAgent appId userId channel ra (snd (stopAgentPolling channel sargs st)))) \<noteq> None)"
  proof (intro allI impI, elim conjE)
    fix sargs :: stop_args and agentId sessionKey session
    assume loc: "locateSession channel (agent_id sargs) (activePollingSessions st)
        = Some (agentId, sessionKey)"
      and ses: "map_of (activePollingSessions st) sessionKey = Some session"
    let ?st' = "snd (stopAgentPolling channel sargs st)"
    note found = stopAgentPolling_found [OF loc ses]
    have free: "\<not> guardHeld ?st' channel"
      by (simp add: found guardHeld_def)
    have "restaurantIndex ?st' = restaurantIndex st"
      by (simp add: found)
    then have same: "validateOrder userId oa ?st' = validateOrder userId oa st"
      by (rule validateOrder_index)
    show "\<not> guardHeld ?st' channel
          \<and> fst (callAndAskQuestionAgent appId userId channel qa ?st') \<noteq> alreadyActive
          \<and> fst (placePhoneOrderAgent appId userId channel oa ?st') \<noteq> alreadyActive
          \<and> fst (makeReservationAgent appId userId channel ra ?st') \<noteq> alreadyActive
          \<and> (validateInquiry qa = None \<longrightarrow>
                snd (snd (callAndAskQuestionAgent appId userId channel qa ?st')) \<noteq> None)
          \<and> ((\<exists>p. validateOrder userId oa st = Inr p) \<longrightarrow>
                snd (snd (placePhoneOrderAgent appId userId channel oa ?st')) \<noteq> None)
          \<and> (validateReservation ra = None \<longrightarrow>
                snd (snd (makeReservationAgent appId userId channel ra ?st')) \<noteq> None)"
      using free same
        not_guardHeld_dispatch(1) [OF free, where qa = qa and appId = appId and userId = userId]
        not_guardHeld_dispatch(2) [OF free, where oa = oa and appId = appId and userId = userId]
        not_guardHeld_dispatch(3) [OF free, where ra = ra and appId = appId and userId = userId]
        not_guardHeld_dispatch(4) [OF free, where qa = qa and appId = appId and userId = userId]
        not_guardHeld_dispatch(5) [OF free, where oa = oa and appId = appId and userId = userId]
        not_guardHeld_dispatch(6) [OF free, where ra = ra and appId = appId and userId = userId]
      by simp
  qed
  from q o r q' qe o' oe r' re wording after show ?thesis by blast
qed

text \<open>
  The scenario on channel c1: an order was dispatched and its agent is tracked; a second
  order is rejected, and so is a reservation without a customer name, with the error of that
  check; after the stop a third order is dispatched.
\<close>

theorem guard_rejects_dispatch_witness:
  "guardHeld active1 ''c1''
   \<and> placePhoneOrderAgent ''app'' ''u1'' ''c1'' order1 active1 = (alreadyActive, active1, None)
   \<and> snd (makeReservationAgent ''app'' ''u1'' ''c1'' (reservation1\<lparr>v_customer_name := []\<rparr>) active1)
       = (active1, None)
   \<and> fst (makeReservationAgent ''app'' ''u1'' ''c1'' (reservation1\<lparr>v_customer_name := []\<rparr>) active1)
       \<noteq> alreadyActive
   \<and> \<not> guardHeld (snd (stopAgentPolling ''c1'' noArgs active1)) ''c1''
   \<and> fst (placePhoneOrderAgent ''app'' ''u1'' ''c1'' order1
             (snd (stopAgentPolling ''c1'' noArgs active1))) \<noteq> alreadyActive
   \<and> snd (snd (placePhoneOrderAgent ''app'' ''u1'' ''c1'' order1
             (snd (stopAgentPolling ''c1'' noArgs active1)))) \<noteq> None"
proof -
  have loc: "locateSession ''c1'' (agent_id noArgs) (activePollingSessions active1)
      = Some (''a1'', ''c1-a1'')"
    by (simp add: noArgs_def locate_active1)
  have ses: "map_of (activePollingSessions active1) ''c1-a1'' = Some session1"
    by (simp add: active1_sessions)
  have ok: "\<exists>p. validateOrder ''u1'' order1 active1 = Inr p"
    by (simp add: validateOrder_order1)
  have bad: "validateReservation (reservation1\<lparr>v_customer_name := []\<rparr>)
      = Some (''Error: Missing required field(s): customer_name. ''
              @ ''Please confirm all details with the user before proceeding.'')"
    by (simp add: validateReservation_def missingFields_def reservation1_def)
  show ?thesis
    using active1_guard loc ses ok bad
      guard_rejects_dispatch [OF active1_guard, of "''app''" "''u1''" inquiry1 order1
        "reservation1\<lparr>v_customer_name := []\<rparr>"]
    by (auto simp: prod_eq_iff)
qed

text \<open>
  The claim as stated fails: with the guard of c1 held, an order that asks for the number to
  be looked up, for a restaurant that is not in the directory, is answered with the
  directory's error, not with the "already active" error.
\<close>

theorem guard_rejects_dispatch_counterexample:
  "guardHeld held1 ''c1''
   \<and> fst (placePhoneOrderAgent ''app'' ''u1'' ''c1'' (order1\<lparr>o_phone_number := ''auto''\<rparr>) held1)
       = ''Error: Could not find phone number for '' @ dq @ ''Tony's Pizza'' @ dq
         @ '' in recent searches. Please search for the restaurant first to get the correct phone number.''
   \<and> fst (placePhoneOrderAgent ''app'' ''u1'' ''c1'' (order1\<lparr>o_phone_number := ''auto''\<rparr>) held1)
       \<noteq> alreadyActive"
  by (simp add: guardHeld_def held1_def placePhoneOrderAgent_def validateOrder_def order1_def
      missingFields_def invalidCustomerName_def toLowerChar_def jsLength_def utf16Units_def
      findPhoneNumber_def emptyStore_def alreadyActive_def dq_def)

subsection \<open>Failed dispatches\<close>

text \<open>
  C2. An order is dispatched on channel c1, which sets the guard, and the detached
  createSpecializedVoiceAgent then fails: because AGORA_CONVO_AI_BASE_URL is not configured,
  because the provisioning request is answered with status 503, because the telephony bridge
  answers "Failed to initiate call", or because the provisioning request times out. Each
  time createSpecializedVoiceAgent fulfils its promise with an error string, so the handler
  that would release the guard does not run: the guard of c1 is still held, and the next
  order for c1 is rejected as already active.
\<close>

theorem failed_dispatch_keeps_guard:
  "placePhoneOrderAgent ''app'' ''u1'' ''c1'' order1 emptyStore
     = (fst (placePhoneOrderAgent ''app'' ''u1'' ''c1'' order1 emptyStore), held1, Some task1)
   \<and> fst (createSpecializedVoiceAgent noBaseUrl ''app'' ''u1'' ''c1'' ''phone-ordering''
            ''+15551234567'' held1)
       = Inr (''Error: Specialized voice agents require additional configuration. ''
              @ ''Missing environment variables: AGORA_CONVO_AI_BASE_URL. ''
              @ ''Please set these variables and restart the server.'')
   \<and> guardHeld (runDetached noBaseUrl task1 held1) ''c1''
   \<and> fst (createSpecializedVoiceAgent joinRefused ''app'' ''u1'' ''c1'' ''phone-ordering''
            ''+15551234567'' held1)
       = Inr (''Error creating phone-ordering agent: '' @ showNat 503 @ '' Service Unavailable - busy'')
   \<and> guardHeld (runDetached joinRefused task1 held1) ''c1''
   \<and> guardHeld (runDetached callRefused task1 held1) ''c1''
   \<and> fst (createSpecializedVoiceAgent joinTimedOut ''app'' ''u1'' ''c1'' ''phone-ordering''
            ''+15551234567'' held1)
       = Inr (''Error creating phone-ordering agent: Request timed out after 30 seconds. ''
              @ ''Please check your network connection and try again.'')
   \<and> guardHeld (runDetached joinTimedOut task1 held1) ''c1''
   \<and> fst (placePhoneOrderAgent ''app'' ''u1'' ''c1'' order1 (runDetached noBaseUrl task1 held1))
       = alreadyActive"
proof -
  have c3: "fst (createSpecializedVoiceAgent joinTimedOut ''app'' ''u1'' ''c1'' ''phone-ordering''
            ''+15551234567'' held1)
       = Inr (''Error creating phone-ordering agent: Request timed out after 30 seconds. ''
              @ ''Please check your network connection and try again.'')"
    by (simp add: createSpecializedVoiceAgent_def createAgentTry_def joinTimedOut_def goodEnv_def
        missingConfig_good getTTSConfig_good createAgentCatch_def)
  have d: "placePhoneOrderAgent ''app'' ''u1'' ''c1'' order1 emptyStore
     = (fst (placePhoneOrderAgent ''app'' ''u1'' ''c1'' order1 emptyStore), held1, Some task1)"
    by (simp add: dispatch_order1)
  have c1: "fst (createSpecializedVoiceAgent noBaseUrl ''app'' ''u1'' ''c1'' ''phone-ordering''
            ''+15551234567'' held1)
       = Inr (''Error: Specialized voice agents require additional configuration. ''
              @ ''Missing environment variables: AGORA_CONVO_AI_BASE_URL. ''
              @ ''Please set these variables and restart the server.'')"
    by (simp add: createSpecializedVoiceAgent_def createAgentTry_def noBaseUrl_def goodEnv_def
        goodConfig_def missingConfig_def)
  have c2: "fst (createSpecializedVoiceAgent joinRefused ''app'' ''u1'' ''c1'' ''phone-ordering''
            ''+15551234567'' held1)
       = Inr (''Error creating phone-ordering agent: '' @ showNat 503 @ '' Service Unavailable - busy'')"
    by (simp add: createSpecializedVoiceAgent_def createAgentTry_def joinRefused_def goodEnv_def
        missingConfig_good getTTSConfig_good)
  have h: "guardHeld held1 ''c1''"
    by (simp add: guardHeld_def held1_def)
  have g: "\<And>e. guardHeld (runDetached e task1 held1) ''c1''"
    using h by (simp add: guardHeld_def runDetached_guard)
  have again: "fst (placePhoneOrderAgent ''app'' ''u1'' ''c1'' order1 (runDetached noBaseUrl task1 held1))
       = alreadyActive"
    using g [of noBaseUrl] by (simp add: placePhoneOrderAgent_def validateOrder_order1)
  from d c1 c2 c3 g again show ?thesis by blast
qed

subsection \<open>The telephone directory\<close>

lemma storeYelp_step_keeps:
  assumes "map_of userIndex businessId = Some entry"
  shows "\<exists>entry'. map_of
      (if y_phone result \<noteq> [] \<and> map_of userIndex (y_id result) = None then
          AList.update (y_id result)
            \<lparr>r_name = y_name result, r_phone = y_phone result, r_id = y_id result,
             lastSeen = now\<rparr> userIndex
        else if y_phone result \<noteq> [] \<and> map_of userIndex (y_id result) \<noteq> None then
          (case map_of userIndex (y_id result) of
             Some existing \<Rightarrow> AList.update (y_id result) (existing\<lparr>lastSeen := now\<rparr>) userIndex
           | None \<Rightarrow> userIndex)
        else userIndex) businessId = Some entry'
     \<and> r_phone entry' = r_phone entry \<and> r_name entry' = r_name entry \<and> r_id entry' = r_id entry"
  using assms by (auto simp: update_conv')

lemma storeYelpLoop_keeps:
  "map_of userIndex businessId = Some entry \<Longrightarrow>
   \<exists>entry'. map_of (storeYelpLoop clock i results userIndex) businessId = Some entry'
     \<and> r_phone entry' = r_phone entry \<and> r_name entry' = r_name entry \<and> r_id entry' = r_id entry"
proof (induction results arbitrary: i userIndex entry)
  case Nil
  then show ?case by simp
next
  case (Cons result results)
  from storeYelp_step_keeps [OF Cons.prems, of result "clock i"]
  obtain e1 where e1: "map_of
      (if y_phone result \<noteq> [] \<and> map_of userIndex (y_id result) = None then
          AList.update (y_id result)
            \<lparr>r_name = y_name result, r_phone = y_phone result, r_id = y_id result,
             lastSeen = clock i\<rparr> userIndex
        else if y_phone result \<noteq> [] \<and> map_of userIndex (y_id result) \<noteq> None then
          (case map_of userIndex (y_id result) of
             Some existing \<Rightarrow> AList.update (y_id result) (existing\<lparr>lastSeen := clock i\<rparr>) userIndex
           | None \<Rightarrow> userIndex)
        else userIndex) businessId = Some e1"
    and same: "r_phone e1 = r_phone entry" "r_name e1 = r_name entry" "r_id e1 = r_id entry"
    by blast
  from Cons.IH [OF e1, of "Suc i"] same show ?case
    by simp
qed

lemma update_present:
  assumes "map_of al k = Some v"
  shows "length (AList.update k v' al) = length al" and "map fst (AList.update k v' al) = map fst al"
proof -
  from assms have "k \<in> set (map fst al)"
    by (metis map_of_eq_None_iff option.distinct(1) set_map)
  then show "map fst (AList.update k v' al) = map fst al"
    by (simp add: update_keys)
  then show "length (AList.update k v' al) = length al"
    by (metis length_map)
qed

text \<open>
  C6. When the directory of a user holds an entry for a business id, then after any later
  storeYelpResults for that user the directory still holds an entry for that id, with the
  same phone. Recording one result with that id and a non-empty phone, whatever that phone
  is, leaves the length of the directory, its keys and their order, and every other entry
  as they were, and changes nothing of the entry but lastSeen, which becomes the time of
  the recording.
\<close>

theorem storeYelpResults_keeps_phone:
  assumes idx: "restaurantIndex st userId = Some userIndex"
    and present: "map_of userIndex businessId = Some entry"
  shows "(\<exists>userIndex' entry'.
            restaurantIndex (storeYelpResults clock userId results st) userId = Some userIndex'
            \<and> map_of userIndex' businessId = Some entry'
            \<and> r_phone entry' = r_phone entry)
     \<and> (\<forall>result. y_id result = businessId \<and> y_phone result \<noteq> [] \<longrightarrow>
           (\<exists>userIndex'.
              restaurantIndex (storeYelpResults clock userId [result] st) userId = Some userIndex'
              \<and> length userIndex' = length userIndex
              \<and> map fst userIndex' = map fst userIndex
              \<and> map_of userIndex' businessId = Some (entry\<lparr>lastSeen := clock 0\<rparr>)
              \<and> (\<forall>k. k \<noteq> businessId \<longrightarrow> map_of userIndex' k = map_of userIndex k)))"
proof -
  have always: "\<exists>userIndex' entry'.
            restaurantIndex (storeYelpResults clock userId results st) userId = Some userIndex'
            \<and> map_of userIndex' businessId = Some entry'
            \<and> r_phone entry' = r_phone entry"
    using storeYelpLoop_keeps [OF present, of clock 0 results]
    by (auto simp: storeYelpResults_def idx)
  have again: "\<forall>result. y_id result = businessId \<and> y_phone result \<noteq> [] \<longrightarrow>
           (\<exists>userIndex'.
              restaurantIndex (storeYelpResults clock userId [result] st) userId = Some userIndex'
              \<and> length userIndex' = length userIndex
              \<and> map fst userIndex' = map fst userIndex
              \<and> map_of userIndex' businessId = Some (entry\<lparr>lastSeen := clock 0\<rparr>)
              \<and> (\<forall>k. k \<noteq> businessId \<longrightarrow> map_of userIndex' k = map_of userIndex k))"
  proof (intro allI impI, elim conjE)
    fix result :: yelp_result
    assume r: "y_id result = businessId" "y_phone result \<noteq> []"
    let ?idx' = "AList.update businessId (entry\<lparr>lastSeen := clock 0\<rparr>) userIndex"
    have "restaurantIndex (storeYelpResults clock userId [result] st) userId = Some ?idx'"
      using r present by (simp add: storeYelpResults_def idx)
    moreover have "length ?idx' = length userIndex" "map fst ?idx' = map fst userIndex"
      using update_present [OF present] by simp_all
    moreover have "map_of ?idx' businessId = Some (entry\<lparr>lastSeen := clock 0\<rparr>)"
      by (simp add: update_conv')
    moreover have "\<forall>k. k \<noteq> businessId \<longrightarrow> map_of ?idx' k = map_of userIndex k"
      by (simp add: update_conv')
    ultimately show "\<exists>userIndex'.
              restaurantIndex (storeYelpResults clock userId [result] st) userId = Some userIndex'
              \<and> length userIndex' = length userIndex
              \<and> map fst userIndex' = map fst userIndex
              \<and> map_of userIndex' businessId = Some (entry\<lparr>lastSeen := clock 0\<rparr>)
              \<and> (\<forall>k. k \<noteq> businessId \<longrightarrow> map_of userIndex' k = map_of userIndex k)"
      by blast
  qed
  from always again show ?thesis by blast
qed

text \<open>
  The same result recorded twice, and recorded again with another phone: one entry, the
  first phone, the later time.
\<close>

theorem storeYelpResults_keeps_phone_witness:
  "restaurantIndex (storeYelpResults (\<lambda>i. 20) ''u1'' [joes]
       (storeYelpResults (\<lambda>i. 10) ''u1'' [joes] emptyStore)) ''u1''
     = Some [(''a'', \<lparr>r_name = ''Joe's'', r_phone = ''+15551234567'', r_id = ''a'', lastSeen = 20\<rparr>)]
   \<and> restaurantIndex (storeYelpResults (\<lambda>i. 20) ''u1'' [joes\<lparr>y_phone := ''+19998887777''\<rparr>]
       (storeYelpResults (\<lambda>i. 10) ''u1'' [joes] emptyStore)) ''u1''
     = Some [(''a'', \<lparr>r_name = ''Joe's'', r_phone = ''+15551234567'', r_id = ''a'', lastSeen = 20\<rparr>)]"
proof -
  let ?st = "storeYelpResults (\<lambda>i. 10) ''u1'' [joes] emptyStore"
  let ?e = "\<lparr>r_name = ''Joe's'', r_phone = ''+15551234567'', r_id = ''a'', lastSeen = 10\<rparr>"
  have idx: "restaurantIndex ?st ''u1'' = Some [(''a'', ?e)]"
    by (simp add: storeYelpResults_def emptyStore_def joes_def)
  have present: "map_of [(''a'', ?e)] ''a'' = Some ?e"
    by simp
  note again = storeYelpResults_keeps_phone [OF idx present, of "\<lambda>i. 20" "[]",
      THEN conjunct2, rule_format]
  have same: "\<exists>userIndex'.
      restaurantIndex (storeYelpResults (\<lambda>i. 20) ''u1'' [joes] ?st) ''u1'' = Some userIndex'
      \<and> length userIndex' = length [(''a'', ?e)]
      \<and> map fst userIndex' = map fst [(''a'', ?e)]
      \<and> map_of userIndex' ''a'' = Some (?e\<lparr>lastSeen := 20\<rparr>)
      \<and> (\<forall>k. k \<noteq> ''a'' \<longrightarrow> map_of userIndex' k = map_of [(''a'', ?e)] k)"
    by (rule again) (simp add: joes_def)
  have other: "\<exists>userIndex'.
      restaurantIndex (storeYelpResults (\<lambda>i. 20) ''u1'' [joes\<lparr>y_phone := ''+19998887777''\<rparr>] ?st) ''u1''
        = Some userIndex'
      \<and> length userIndex' = length [(''a'', ?e)]
      \<and> map fst userIndex' = map fst [(''a'', ?e)]
      \<and> map_of userIndex' ''a'' = Some (?e\<lparr>lastSeen := 20\<rparr>)
      \<and> (\<forall>k. k \<noteq> ''a'' \<longrightarrow> map_of userIndex' k = map_of [(''a'', ?e)] k)"
    by (rule again) (simp add: joes_def)
  have one: "\<And>xs :: (string \<times> restaurant) list. length xs = length [(''a'', ?e)] \<Longrightarrow>
      map_of xs ''a'' = Some (?e\<lparr>lastSeen := 20\<rparr>) \<Longrightarrow> xs = [(''a'', ?e\<lparr>lastSeen := 20\<rparr>)]"
  proof -
    fix xs :: "(string \<times> restaurant) list"
    assume len: "length xs = length [(''a'', ?e)]"
      and at: "map_of xs ''a'' = Some (?e\<lparr>lastSeen := 20\<rparr>)"
    from len obtain k v where xs: "xs = [(k, v)]"
      by (cases xs) auto
    with at show "xs = [(''a'', ?e\<lparr>lastSeen := 20\<rparr>)]"
      by (simp split: if_splits)
  qed
  from same one have "restaurantIndex (storeYelpResults (\<lambda>i. 20) ''u1'' [joes] ?st) ''u1''
      = Some [(''a'', ?e\<lparr>lastSeen := 20\<rparr>)]"
    by blast
  moreover from other one
  have "restaurantIndex (storeYelpResults (\<lambda>i. 20) ''u1'' [joes\<lparr>y_phone := ''+19998887777''\<rparr>] ?st) ''u1''
      = Some [(''a'', ?e\<lparr>lastSeen := 20\<rparr>)]"
    by blast
  ultimately show ?thesis by simp
qed

subsection \<open>Resolving a name\<close>

lemma nameMatches_spec:
  "nameMatches (normalizeName query) r = specMatches query (r_name r)"
  by (auto simp: nameMatches_def specMatches_def Let_def str_includes_sublist)

lemma find_skip:
  "\<forall>p \<in> set pre. \<not> P p \<Longrightarrow> P x \<Longrightarrow> find P (pre @ x # post) = Some x"
  by (induction pre) simp_all

lemma normalizeName_alnum: "list_all isLowerAlnum (normalizeName name)"
  by (simp add: normalizeName_def list_all_iff)

lemma normalizeName_examples:
  "normalizeName ''Tony's Pizza'' = ''tonyspizza''"
  "normalizeName ''Tony's'' = ''tonys''"
  "normalizeName ''tonys pizza'' = ''tonyspizza''"
  "normalizeName ''Tony's Tacos'' = ''tonystacos''"
  by (simp_all add: normalizeName_def isLowerAlnum_def toLowerChar_def)

lemma normalizeName_beyond_ascii:
  "normalizeName [CHR 0xE2, CHR 0x84, CHR 0xAA] = ''k''"
  "normalizeName [CHR 0xC4, CHR 0xB0] = ''i''"
  "normalizeName [CHR 0xC3, CHR 0x89] = []"
  by (simp_all add: normalizeName_def isLowerAlnum_def toLowerChar_def)

text \<open>
  C7, as amended. findPhoneNumber returns the phone of the first entry of the user's
  directory, in insertion order, whose name matches the query in the specification's sense,
  and nothing when there is none. A normalized name holds lowercase ASCII letters and digits
  only; "Tony's Pizza" and "tonys pizza" normalize to tonyspizza and "Tony's" to tonys.
  "Tony's" and "tonys pizza" both match the name "Tony's Pizza", and each resolves to the
  phone of an entry of that name when no entry recorded before it matches the query.
\<close>

theorem findPhoneNumber_first_match:
  "findPhoneNumber userId query st =
     (case restaurantIndex st userId of
        None \<Rightarrow> None
      | Some userIndex \<Rightarrow>
          map_option r_phone (find (\<lambda>r. specMatches query (r_name r)) (map snd userIndex)))
   \<and> list_all isLowerAlnum (normalizeName query)
   \<and> normalizeName ''Tony's Pizza'' = ''tonyspizza''
   \<and> normalizeName ''Tony's'' = ''tonys''
   \<and> normalizeName ''tonys pizza'' = ''tonyspizza''
   \<and> specMatches ''Tony's'' ''Tony's Pizza''
   \<and> specMatches ''tonys pizza'' ''Tony's Pizza''
   \<and> (\<forall>pre key entry post.
         restaurantIndex st userId = Some (pre @ (key, entry) # post)
         \<and> specMatches query (r_name entry)
         \<and> (\<forall>p \<in> set pre. \<not> specMatches query (r_name (snd p))) \<longrightarrow>
           findPhoneNumber userId query st = Some (r_phone entry))"
proof -
  have shape: "findPhoneNumber userId query st =
     (case restaurantIndex st userId of
        None \<Rightarrow> None
      | Some userIndex \<Rightarrow>
          map_option r_phone (find (\<lambda>r. specMatches query (r_name r)) (map snd userIndex)))"
  proof (cases "restaurantIndex st userId")
    case None
    then show ?thesis by (simp add: findPhoneNumber_def)
  next
    case (Some userIndex)
    have pred: "nameMatches (normalizeName query) = (\<lambda>r. specMatches query (r_name r))"
      by (rule ext) (rule nameMatches_spec)
    show ?thesis
      by (cases userIndex) (simp_all add: findPhoneNumber_def Some Let_def pred split: option.splits)
  qed
  have tony1: "specMatches ''Tony's'' ''Tony's Pizza''"
    by (simp add: specMatches_def normalizeName_examples)
  have tony2: "specMatches ''tonys pizza'' ''Tony's Pizza''"
    by (simp add: specMatches_def normalizeName_examples)
  have first: "\<forall>pre key entry post.
         restaurantIndex st userId = Some (pre @ (key, entry) # post)
         \<and> specMatches query (r_name entry)
         \<and> (\<forall>p \<in> set pre. \<not> specMatches query (r_name (snd p))) \<longrightarrow>
           findPhoneNumber userId query st = Some (r_phone entry)"
  proof (intro allI impI, elim conjE)
    fix pre :: "(string \<times> restaurant) list" and key entry post
    assume idx: "restaurantIndex st userId = Some (pre @ (key, entry) # post)"
      and hit: "specMatches query (r_name entry)"
      and miss: "\<forall>p \<in> set pre. \<not> specMatches query (r_name (snd p))"
    have "find (\<lambda>r. specMatches query (r_name r)) (map snd pre @ entry # map snd post) = Some entry"
      using miss hit by (intro find_skip) auto
    then show "findPhoneNumber userId query st = Some (r_phone entry)"
      by (simp add: shape idx)
  qed
  from shape normalizeName_alnum normalizeName_examples(1,2,3) tony1 tony2 first
  show ?thesis by blast
qed

text \<open>
  A directory with the one entry "Tony's Pizza": both queries resolve to its phone.
\<close>

theorem findPhoneNumber_first_match_witness:
  "findPhoneNumber ''u1'' ''Tony's'' (storeYelpResults (\<lambda>i. 10) ''u1'' [tonys] emptyStore)
     = Some ''+15551234567''
   \<and> findPhoneNumber ''u1'' ''tonys pizza'' (storeYelpResults (\<lambda>i. 10) ''u1'' [tonys] emptyStore)
     = Some ''+15551234567''"
proof -
  let ?st = "storeYelpResults (\<lambda>i. 10) ''u1'' [tonys] emptyStore"
  let ?e = "\<lparr>r_name = ''Tony's Pizza'', r_phone = ''+15551234567'', r_id = ''a'', lastSeen = 10\<rparr>"
  have idx: "restaurantIndex ?st ''u1'' = Some ([] @ (''a'', ?e) # [])"
    by (simp add: storeYelpResults_def emptyStore_def tonys_def)
  note first1 = findPhoneNumber_first_match [of "''u1''" "''Tony's''" ?st,
      THEN conjunct2, THEN conjunct2, THEN conjunct2, THEN conjunct2, THEN conjunct2,
      THEN conjunct2, THEN conjunct2, rule_format, of "[]" "''a''" ?e "[]"]
  note first2 = findPhoneNumber_first_match [of "''u1''" "''tonys pizza''" ?st,
      THEN conjunct2, THEN conjunct2, THEN conjunct2, THEN conjunct2, THEN conjunct2,
      THEN conjunct2, THEN conjunct2, rule_format, of "[]" "''a''" ?e "[]"]
  note tony1 = findPhoneNumber_first_match [of "''u1''" "''Tony's''" ?st,
      THEN conjunct2, THEN conjunct2, THEN conjunct2, THEN conjunct2, THEN conjunct2,
      THEN conjunct1]
  note tony2 = findPhoneNumber_first_match [of "''u1''" "''Tony's''" ?st,
      THEN conjunct2, THEN conjunct2, THEN conjunct2, THEN conjunct2, THEN conjunct2,
      THEN conjunct2, THEN conjunct1]
  have "findPhoneNumber ''u1'' ''Tony's'' ?st = Some (r_phone ?e)"
    using idx tony1 by (intro first1) simp
  moreover have "findPhoneNumber ''u1'' ''tonys pizza'' ?st = Some (r_phone ?e)"
    using idx tony2 by (intro first2) simp
  ultimately show ?thesis by simp
qed

text \<open>
  The claim as stated fails: "Tony's Tacos" was recorded before "Tony's Pizza". The query
  "Tony's" matches both names and resolves to the phone of the first, so the two queries
  do not resolve to the phone of the entry named "Tony's Pizza": they give two phones.
\<close>

theorem findPhoneNumber_first_match_counterexample:
  "restaurantIndex (storeYelpResults (\<lambda>i. 10) ''u1'' [tacos, tonys] emptyStore) ''u1''
     = Some [(''t'', \<lparr>r_name = ''Tony's Tacos'', r_phone = ''+15550000111'', r_id = ''t'',
                      lastSeen = 10\<rparr>),
             (''a'', \<lparr>r_name = ''Tony's Pizza'', r_phone = ''+15551234567'', r_id = ''a'',
                      lastSeen = 10\<rparr>)]
   \<and> findPhoneNumber ''u1'' ''Tony's'' (storeYelpResults (\<lambda>i. 10) ''u1'' [tacos, tonys] emptyStore)
     = Some ''+15550000111''
   \<and> findPhoneNumber ''u1'' ''tonys pizza''
       (storeYelpResults (\<lambda>i. 10) ''u1'' [tacos, tonys] emptyStore)
     = Some ''+15551234567''"
proof -
  let ?st = "storeYelpResults (\<lambda>i. 10) ''u1'' [tacos, tonys] emptyStore"
  have idx: "restaurantIndex ?st ''u1''
     = Some [(''t'', \<lparr>r_name = ''Tony's Tacos'', r_phone = ''+15550000111'', r_id = ''t'',
                      lastSeen = 10\<rparr>),
             (''a'', \<lparr>r_name = ''Tony's Pizza'', r_phone = ''+15551234567'', r_id = ''a'',
                      lastSeen = 10\<rparr>)]"
    by (simp add: storeYelpResults_def emptyStore_def tacos_def tonys_def)
  have q1: "findPhoneNumber ''u1'' ''Tony's'' ?st = Some ''+15550000111''"
    by (simp add: findPhoneNumber_def idx nameMatches_def normalizeName_examples)
  have q2: "findPhoneNumber ''u1'' ''tonys pizza'' ?st = Some ''+15551234567''"
    by (simp add: findPhoneNumber_def idx nameMatches_def normalizeName_examples)
  from idx q1 q2 show ?thesis by simp
qed

subsection \<open>Duplicate tool calls\<close>

lemma processToolCall_skip:
  "fn_name toolCall \<in> executedFunctions s \<Longrightarrow> processToolCall d toolCall s = Done s"
  by (simp add: processToolCall_def)

lemma processToolCall_inv:
  "loopInv s \<Longrightarrow> loopInv (outcomeState (processToolCall d toolCall s))"
  by (auto simp: processToolCall_def loopInv_def Let_def pushToolResult_def
      split: option.splits sum.splits prod.splits response_type.splits)

lemma toolCallLoop_inv:
  "loopInv s \<Longrightarrow> loopInv (outcomeState (toolCallLoop d calls s))"
proof (induction calls arbitrary: s)
  case Nil
  then show ?case by simp
next
  case (Cons toolCall rest)
  from Cons.prems have step: "loopInv (outcomeState (processToolCall d toolCall s))"
    by (rule processToolCall_inv)
  show ?case
  proof (cases "processToolCall d toolCall s")
    case (Done s')
    with step have "loopInv s'" by simp
    then have "loopInv (outcomeState (toolCallLoop d rest s'))" by (rule Cons.IH)
    with Done show ?thesis by simp
  next
    case (Threw err s')
    with step show ?thesis by simp
  qed
qed

lemma toolCallLoop_append:
  "toolCallLoop d (xs @ ys) s =
     (case toolCallLoop d xs s of Done s' \<Rightarrow> toolCallLoop d ys s' | Threw err s' \<Rightarrow> Threw err s')"
  by (induction xs arbitrary: s) (simp_all split: outcome.splits)

lemma distinct_count_le_one:
  "distinct (map f xs) \<Longrightarrow> length (filter (\<lambda>x. f x = n) xs) \<le> 1"
proof (induction xs)
  case Nil
  then show ?case by simp
next
  case (Cons a xs)
  show ?case
  proof (cases "f a = n")
    case True
    from Cons.prems have "f a \<notin> f ` set xs" by simp
    with True have "\<forall>x \<in> set xs. f x \<noteq> n" by (metis image_eqI)
    then have "filter (\<lambda>x. f x = n) xs = []" by (simp add: filter_empty_conv)
    with True show ?thesis by simp
  next
    case False
    with Cons show ?thesis by simp
  qed
qed

lemma initial_inv: "loopInv (initialLoopState msgs w)"
  by (simp add: loopInv_def initialLoopState_def)

lemma sandwich_name: "fn_name (sandwichCall i) = ''order_sandwich''"
  by (simp add: sandwichCall_def)

lemma sandwich_loop:
  "toolCallLoop sandwichShop [sandwichCall ''t1'', sandwichCall ''t2''] (initialLoopState msgs 0)
     = Done \<lparr>fullMessages = msgs @ [ToolMessage ''Sandwich ordered'' ''t1''], hasDataTools = True,
             executedFunctions = {''order_sandwich''}, world = Suc 0,
             invoked = [sandwichCall ''t1'']\<rparr>"
  by (simp add: processToolCall_def sandwichShop_def sandwichCall_def initialLoopState_def
      isPhoneCallFunction_def pushToolResult_def Let_def)

lemma sandwich_once:
  "toolCallLoop sandwichShop [sandwichCall ''t1''] (initialLoopState msgs 0)
     = Done \<lparr>fullMessages = msgs @ [ToolMessage ''Sandwich ordered'' ''t1''], hasDataTools = True,
             executedFunctions = {''order_sandwich''}, world = Suc 0,
             invoked = [sandwichCall ''t1'']\<rparr>"
  by (simp add: processToolCall_def sandwichShop_def sandwichCall_def initialLoopState_def
      isPhoneCallFunction_def pushToolResult_def Let_def)

text \<open>
  C4, as amended. In the tool-call loop of one turn, whether it runs to its end or throws,
  the handlers of at most one tool call of any given name are invoked. A request whose name
  was already invoked earlier in the turn is skipped: processing it leaves the messages, the
  world and the list of invocations as they are, so the turn goes as if the request were not
  there. A request for one of the three phone-call functions that finds a call recently
  initiated or someone joined is answered with a synthetic tool message of its own and is
  not marked as executed.
\<close>

theorem handler_invoked_at_most_once:
  "length (filter (\<lambda>c. fn_name c = name)
       (invoked (outcomeState (toolCallLoop d calls (initialLoopState msgs w))))) \<le> 1
   \<and> (\<forall>before toolCall after s.
         calls = before @ toolCall # after
         \<and> toolCallLoop d before (initialLoopState msgs w) = Done s
         \<and> fn_name toolCall \<in> fn_name ` set (invoked s) \<longrightarrow>
           processToolCall d toolCall s = Done s
         \<and> toolCallLoop d calls (initialLoopState msgs w)
             = toolCallLoop d (before @ after) (initialLoopState msgs w))
   \<and> (\<forall>toolCall handler s.
         versionedFunctions d (fn_name toolCall) = Some handler
         \<and> fn_name toolCall \<notin> executedFunctions s
         \<and> isPhoneCallFunction (fn_name toolCall)
         \<and> (hasRecentCall (lastN 15 (fullMessages s)) \<or> someoneJoined (lastN 15 (fullMessages s))) \<longrightarrow>
           (\<exists>content. processToolCall d toolCall s
              = Done (s\<lparr>fullMessages := fullMessages s @ [ToolMessage content (tc_id toolCall)],
                        hasDataTools := True\<rparr>)))"
proof -
  let ?init = "initialLoopState msgs w"
  have synthetic: "\<forall>toolCall handler s.
         versionedFunctions d (fn_name toolCall) = Some handler
         \<and> fn_name toolCall \<notin> executedFunctions s
         \<and> isPhoneCallFunction (fn_name toolCall)
         \<and> (hasRecentCall (lastN 15 (fullMessages s)) \<or> someoneJoined (lastN 15 (fullMessages s))) \<longrightarrow>
           (\<exists>content. processToolCall d toolCall s
              = Done (s\<lparr>fullMessages := fullMessages s @ [ToolMessage content (tc_id toolCall)],
                        hasDataTools := True\<rparr>))"
    by (auto simp: processToolCall_def Let_def pushToolResult_def)
  have "loopInv (outcomeState (toolCallLoop d calls ?init))"
    using initial_inv by (rule toolCallLoop_inv)
  then have once: "length (filter (\<lambda>c. fn_name c = name)
       (invoked (outcomeState (toolCallLoop d calls ?init)))) \<le> 1"
    unfolding loopInv_def by (intro distinct_count_le_one) simp
  have dup: "\<forall>before toolCall after s.
         calls = before @ toolCall # after
         \<and> toolCallLoop d before ?init = Done s
         \<and> fn_name toolCall \<in> fn_name ` set (invoked s) \<longrightarrow>
           processToolCall d toolCall s = Done s
         \<and> toolCallLoop d calls ?init = toolCallLoop d (before @ after) ?init"
  proof (intro allI impI, elim conjE)
    fix before toolCall after s
    assume calls: "calls = before @ toolCall # after"
      and reach: "toolCallLoop d before ?init = Done s"
      and seen: "fn_name toolCall \<in> fn_name ` set (invoked s)"
    have "loopInv (outcomeState (toolCallLoop d before ?init))"
      using initial_inv by (rule toolCallLoop_inv)
    with reach have "loopInv s" by simp
    with seen have "fn_name toolCall \<in> executedFunctions s"
      by (auto simp: loopInv_def)
    then have skip: "processToolCall d toolCall s = Done s"
      by (rule processToolCall_skip)
    then have "toolCallLoop d calls ?init = toolCallLoop d (before @ after) ?init"
      by (simp add: calls toolCallLoop_append reach)
    with skip show "processToolCall d toolCall s = Done s
         \<and> toolCallLoop d calls ?init = toolCallLoop d (before @ after) ?init"
      by simp
  qed
  from once dup synthetic show ?thesis by blast
qed

text \<open>
  Two requests for order_sandwich in one turn: one invocation, one tool message.
\<close>

theorem handler_invoked_at_most_once_witness:
  "toolCallLoop sandwichShop [sandwichCall ''t1'', sandwichCall ''t2''] (initialLoopState [] 0)
     = toolCallLoop sandwichShop [sandwichCall ''t1''] (initialLoopState [] 0)
   \<and> invoked (outcomeState (toolCallLoop sandwichShop [sandwichCall ''t1'', sandwichCall ''t2'']
        (initialLoopState [] 0))) = [sandwichCall ''t1'']
   \<and> world (outcomeState (toolCallLoop sandwichShop [sandwichCall ''t1'', sandwichCall ''t2'']
        (initialLoopState [] 0))) = 1
   \<and> fullMessages (outcomeState (toolCallLoop sandwichShop [sandwichCall ''t1'', sandwichCall ''t2'']
        (initialLoopState [] 0))) = [ToolMessage ''Sandwich ordered'' ''t1'']"
proof -
  let ?s = "\<lparr>fullMessages = [] @ [ToolMessage ''Sandwich ordered'' ''t1''], hasDataTools = True,
             executedFunctions = {''order_sandwich''}, world = Suc 0,
             invoked = [sandwichCall ''t1'']\<rparr>"
  note dup = handler_invoked_at_most_once [of "''order_sandwich''" sandwichShop
      "[sandwichCall ''t1'', sandwichCall ''t2'']" "[]" "0::nat", THEN conjunct2, THEN conjunct1,
      rule_format,
      of "[sandwichCall ''t1'']" "sandwichCall ''t2''" "[]" ?s]
  have "toolCallLoop sandwichShop [sandwichCall ''t1'', sandwichCall ''t2''] (initialLoopState [] 0)
     = toolCallLoop sandwichShop ([sandwichCall ''t1''] @ []) (initialLoopState [] 0)"
    by (rule dup [THEN conjunct2]) (simp add: sandwich_once sandwich_name del: toolCallLoop.simps)
  then show ?thesis
    by (simp add: sandwich_once del: toolCallLoop.simps)
qed

text \<open>
  The claim as stated fails: the model says it is calling and asks for call_phone twice. No
  handler is invoked, and each of the two requests, the duplicate too, gets a tool message.
\<close>

theorem handler_invoked_at_most_once_counterexample:
  "toolCallLoop phoneDesk [phoneCall ''t1'', phoneCall ''t2'']
       (initialLoopState
          [UserMessage ''Please call them.'',
           AssistantMessage (Some ''Calling the restaurant now.'')
             [phoneCall ''t1'', phoneCall ''t2'']] 0)
     = Done \<lparr>fullMessages =
               [UserMessage ''Please call them.'',
                AssistantMessage (Some ''Calling the restaurant now.'')
                  [phoneCall ''t1'', phoneCall ''t2''],
                ToolMessage callAlreadyInitiated ''t1'',
                ToolMessage callAlreadyInitiated ''t2''],
             hasDataTools = True, executedFunctions = {}, world = 0, invoked = []\<rparr>"
  by (simp add: processToolCall_def phoneDesk_def initialLoopState_def
      isPhoneCallFunction_def pushToolResult_def Let_def lastN_def hasRecentCall_def
      someoneJoined_def callAlreadyInitiated_def toLowerChar_def)
     (simp add: phoneCall_def)

subsection \<open>The follow-up request\<close>

lemma processToolCall_messages:
  "processToolCall d toolCall s = Done s' \<Longrightarrow>
   \<exists>added. fullMessages s' = fullMessages s @ added \<and> (\<forall>m \<in> set added. role m = RoleTool)
     \<and> hasDataTools s' = (hasDataTools s \<or> added \<noteq> [])"
  by (auto simp: processToolCall_def Let_def pushToolResult_def
      split: if_splits option.splits sum.splits prod.splits response_type.splits)

lemma toolCallLoop_messages:
  "toolCallLoop d calls s = Done s' \<Longrightarrow>
   \<exists>added. fullMessages s' = fullMessages s @ added \<and> (\<forall>m \<in> set added. role m = RoleTool)
     \<and> hasDataTools s' = (hasDataTools s \<or> added \<noteq> [])"
proof (induction calls arbitrary: s)
  case Nil
  then show ?case by simp
next
  case (Cons toolCall rest)
  from Cons.prems obtain s1 where step: "processToolCall d toolCall s = Done s1"
    and rest: "toolCallLoop d rest s1 = Done s'"
    by (auto split: outcome.splits)
  from processToolCall_messages [OF step] obtain a1 where
    a1: "fullMessages s1 = fullMessages s @ a1" "\<forall>m \<in> set a1. role m = RoleTool"
      "hasDataTools s1 = (hasDataTools s \<or> a1 \<noteq> [])"
    by blast
  from Cons.IH [OF rest] obtain a2 where
    a2: "fullMessages s' = fullMessages s1 @ a2" "\<forall>m \<in> set a2. role m = RoleTool"
      "hasDataTools s' = (hasDataTools s1 \<or> a2 \<noteq> [])"
    by blast
  from a1 a2 have "fullMessages s' = fullMessages s @ (a1 @ a2)
      \<and> (\<forall>m \<in> set (a1 @ a2). role m = RoleTool)
      \<and> hasDataTools s' = (hasDataTools s \<or> a1 @ a2 \<noteq> [])"
    by auto
  then show ?case by blast
qed

lemma keptForFollowUp_role: "keptForFollowUp msg = (role msg \<noteq> RoleAssistant)"
  by (cases msg) (simp_all add: keptForFollowUp_def)

text \<open>
  C5, as amended. When the first completion holds no tool call, it is returned and no other
  request is made. When its tool calls are processed to the end, the messages have grown by
  tool messages only. If by at least one, exactly one follow-up request is made, without
  the tools, and its answer is the answer of the turn (its failure the failure of the turn);
  its messages are the messages with every assistant message removed, so system, user and
  tool messages only, unless the model is qwen-3-32b, for which they are all the messages.
  If by none, the first completion is returned and no other request is made.
\<close>

theorem follow_up_request:
  assumes first: "create requestOptions = Inr response"
  shows "((case choices response of [] \<Rightarrow> True | choice # others \<Rightarrow> tool_calls choice = []) \<longrightarrow>
            requests (processNonStreamingRequest d create requestOptions fullMessages0 w)
              = [requestOptions]
          \<and> answer (processNonStreamingRequest d create requestOptions fullMessages0 w)
              = Inr response)
    \<and> (\<forall>choice others s.
          choices response = choice # others \<and> tool_calls choice \<noteq> []
          \<and> toolCallLoop d (tool_calls choice)
                (initialLoopState
                   (fullMessages0 @ [AssistantMessage (cm_content choice) (tool_calls choice)]) w)
              = Done s \<longrightarrow>
          (\<exists>added.
              fullMessages s
                = fullMessages0 @ [AssistantMessage (cm_content choice) (tool_calls choice)] @ added
            \<and> (\<forall>m \<in> set added. role m = RoleTool)
            \<and> (added \<noteq> [] \<longrightarrow>
                  requests (processNonStreamingRequest d create requestOptions fullMessages0 w)
                    = [requestOptions, followUpRequest requestOptions (fullMessages s)]
                \<and> answer (processNonStreamingRequest d create requestOptions fullMessages0 w)
                    = (case create (followUpRequest requestOptions (fullMessages s)) of
                         Inl err \<Rightarrow> Inl failedToProcess
                       | Inr finalResponse \<Rightarrow> Inr finalResponse)
                \<and> \<not> req_tools (followUpRequest requestOptions (fullMessages s))
                \<and> (req_model requestOptions \<noteq> ''qwen-3-32b'' \<longrightarrow>
                      req_messages (followUpRequest requestOptions (fullMessages s))
                        = filter (\<lambda>m. role m \<noteq> RoleAssistant) (fullMessages s)
                    \<and> (\<forall>m \<in> set (req_messages (followUpRequest requestOptions (fullMessages s))).
                          role m = RoleSystem \<or> role m = RoleUser \<or> role m = RoleTool))
                \<and> (req_model requestOptions = ''qwen-3-32b'' \<longrightarrow>
                      req_messages (followUpRequest requestOptions (fullMessages s))
                        = fullMessages s))
            \<and> (added = [] \<longrightarrow>
                  requests (processNonStreamingRequest d create requestOptions fullMessages0 w)
                    = [requestOptions]
                \<and> answer (processNonStreamingRequest d create requestOptions fullMessages0 w)
                    = Inr response)))"
proof -
  have plain: "(case choices response of [] \<Rightarrow> True | choice # others \<Rightarrow> tool_calls choice = []) \<longrightarrow>
      requests (processNonStreamingRequest d create requestOptions fullMessages0 w)
        = [requestOptions]
      \<and> answer (processNonStreamingRequest d create requestOptions fullMessages0 w)
        = Inr response"
    using first by (simp add: processNonStreamingRequest_def split: list.splits)
  have looped: "\<forall>choice others s.
          choices response = choice # others \<and> tool_calls choice \<noteq> []
          \<and> toolCallLoop d (tool_calls choice)
                (initialLoopState
                   (fullMessages0 @ [AssistantMessage (cm_content choice) (tool_calls choice)]) w)
              = Done s \<longrightarrow>
          (\<exists>added.
              fullMessages s
                = fullMessages0 @ [AssistantMessage (cm_content choice) (tool_calls choice)] @ added
            \<and> (\<forall>m \<in> set added. role m = RoleTool)
            \<and> (added \<noteq> [] \<longrightarrow>
                  requests (processNonStreamingRequest d create requestOptions fullMessages0 w)
                    = [requestOptions, followUpRequest requestOptions (fullMessages s)]
                \<and> answer (processNonStreamingRequest d create requestOptions fullMessages0 w)
                    = (case create (followUpRequest requestOptions (fullMessages s)) of
                         Inl err \<Rightarrow> Inl failedToProcess
                       | Inr finalResponse \<Rightarrow> Inr finalResponse)
                \<and> \<not> req_tools (followUpRequest requestOptions (fullMessages s))
                \<and> (req_model requestOptions \<noteq> ''qwen-3-32b'' \<longrightarrow>
                      req_messages (followUpRequest requestOptions (fullMessages s))
                        = filter (\<lambda>m. role m \<noteq> RoleAssistant) (fullMessages s)
                    \<and> (\<forall>m \<in> set (req_messages (followUpRequest requestOptions (fullMessages s))).
                          role m = RoleSystem \<or> role m = RoleUser \<or> role m = RoleTool))
                \<and> (req_model requestOptions = ''qwen-3-32b'' \<longrightarrow>
                      req_messages (followUpRequest requestOptions (fullMessages s))
                        = fullMessages s))
            \<and> (added = [] \<longrightarrow>
                  requests (processNonStreamingRequest d create requestOptions fullMessages0 w)
                    = [requestOptions]
                \<and> answer (processNonStreamingRequest d create requestOptions fullMessages0 w)
                    = Inr response))"
  proof (intro allI impI, elim conjE)
    fix choice others s
    assume choice: "choices response = choice # others"
      and calls: "tool_calls choice \<noteq> []"
      and loop: "toolCallLoop d (tool_calls choice)
                (initialLoopState
                   (fullMessages0 @ [AssistantMessage (cm_content choice) (tool_calls choice)]) w)
              = Done s"
    let ?turn = "processNonStreamingRequest d create requestOptions fullMessages0 w"
    let ?final = "followUpRequest requestOptions (fullMessages s)"
    from toolCallLoop_messages [OF loop] obtain added where
      added: "fullMessages s
          = fullMessages0 @ [AssistantMessage (cm_content choice) (tool_calls choice)] @ added"
        "\<forall>m \<in> set added. role m = RoleTool" "hasDataTools s = (added \<noteq> [])"
      by (auto simp: initialLoopState_def)
    have turn: "?turn =
        (if hasDataTools s then
           \<lparr>answer = (case create ?final of
                         Inl err \<Rightarrow> Inl failedToProcess
                       | Inr finalResponse \<Rightarrow> Inr finalResponse),
            requests = [requestOptions, ?final], turnState = Some s\<rparr>
         else \<lparr>answer = Inr response, requests = [requestOptions], turnState = Some s\<rparr>)"
      using first choice calls loop by (simp add: processNonStreamingRequest_def Let_def)
    have notools: "\<not> req_tools ?final"
      by (simp add: followUpRequest_def)
    have stripped: "req_model requestOptions \<noteq> ''qwen-3-32b'' \<longrightarrow>
        req_messages ?final = filter (\<lambda>m. role m \<noteq> RoleAssistant) (fullMessages s)
        \<and> (\<forall>m \<in> set (req_messages ?final).
              role m = RoleSystem \<or> role m = RoleUser \<or> role m = RoleTool)"
      by (auto simp: followUpRequest_def keptForFollowUp_def)
         (simp add: keptForFollowUp_role [symmetric] keptForFollowUp_def cong: filter_cong)
    have kept: "req_model requestOptions = ''qwen-3-32b'' \<longrightarrow> req_messages ?final = fullMessages s"
      by (simp add: followUpRequest_def)
    have some: "added \<noteq> [] \<longrightarrow>
        requests ?turn = [requestOptions, ?final]
        \<and> answer ?turn = (case create ?final of
                            Inl err \<Rightarrow> Inl failedToProcess
                          | Inr finalResponse \<Rightarrow> Inr finalResponse)"
      using added(3) by (simp add: turn)
    have none: "added = [] \<longrightarrow> requests ?turn = [requestOptions] \<and> answer ?turn = Inr response"
      using added(3) by (simp add: turn)
    from added(1,2) some notools stripped kept none
    show "\<exists>added.
              fullMessages s
                = fullMessages0 @ [AssistantMessage (cm_content choice) (tool_calls choice)] @ added
            \<and> (\<forall>m \<in> set added. role m = RoleTool)
            \<and> (added \<noteq> [] \<longrightarrow>
                  requests ?turn = [requestOptions, ?final]
                \<and> answer ?turn
                    = (case create ?final of
                         Inl err \<Rightarrow> Inl failedToProcess
                       | Inr finalResponse \<Rightarrow> Inr finalResponse)
                \<and> \<not> req_tools ?final
                \<and> (req_model requestOptions \<noteq> ''qwen-3-32b'' \<longrightarrow>
                      req_messages ?final = filter (\<lambda>m. role m \<noteq> RoleAssistant) (fullMessages s)
                    \<and> (\<forall>m \<in> set (req_messages ?final).
                          role m = RoleSystem \<or> role m = RoleUser \<or> role m = RoleTool))
                \<and> (req_model requestOptions = ''qwen-3-32b'' \<longrightarrow>
                      req_messages ?final = fullMessages s))
            \<and> (added = [] \<longrightarrow> requests ?turn = [requestOptions] \<and> answer ?turn = Inr response)"
      by blast
  qed
  from plain looped show ?thesis by blast
qed

text \<open>
  A turn with a model other than qwen-3-32b: the follow-up request holds the user message
  and the tool message, and its answer is returned.
\<close>

theorem follow_up_request_witness:
  "requests (processNonStreamingRequest sandwichShop sandwichModel
       (sandwichRequest ''llama-4-scout-17b-16e-instruct'') [UserMessage ''a ham sandwich please''] 0)
     = [sandwichRequest ''llama-4-scout-17b-16e-instruct'',
        \<lparr>req_model = ''llama-4-scout-17b-16e-instruct'',
         req_messages = [UserMessage ''a ham sandwich please'',
                         ToolMessage ''Sandwich ordered'' ''t1''],
         req_tools = False\<rparr>]
   \<and> answer (processNonStreamingRequest sandwichShop sandwichModel
       (sandwichRequest ''llama-4-scout-17b-16e-instruct'') [UserMessage ''a ham sandwich please''] 0)
     = Inr \<lparr>completion_id = ''final'',
            choices = [\<lparr>cm_content = Some ''Your sandwich is ordered.'', tool_calls = []\<rparr>]\<rparr>"
proof -
  let ?opts = "sandwichRequest ''llama-4-scout-17b-16e-instruct''"
  let ?calls = "[sandwichCall ''t1'', sandwichCall ''t2'']"
  let ?choice = "\<lparr>cm_content = None, tool_calls = ?calls\<rparr>"
  let ?response = "\<lparr>completion_id = ''first'', choices = [?choice]\<rparr>"
  let ?msgs = "[UserMessage ''a ham sandwich please'']"
  let ?s = "\<lparr>fullMessages = (?msgs @ [AssistantMessage None ?calls])
                 @ [ToolMessage ''Sandwich ordered'' ''t1''], hasDataTools = True,
             executedFunctions = {''order_sandwich''}, world = Suc 0,
             invoked = [sandwichCall ''t1'']\<rparr>"
  have first: "sandwichModel ?opts = Inr ?response"
    by (simp add: sandwichModel_def sandwichRequest_def)
  note looped = follow_up_request [where create = sandwichModel and requestOptions = ?opts
      and response = ?response and d = sandwichShop and ?fullMessages0.0 = ?msgs and w = "0::nat",
      OF first, THEN conjunct2, rule_format, of ?choice "[]" ?s]
  have "\<exists>added. fullMessages ?s = ?msgs @ [AssistantMessage (cm_content ?choice) (tool_calls ?choice)] @ added
            \<and> (\<forall>m \<in> set added. role m = RoleTool)
            \<and> (added \<noteq> [] \<longrightarrow>
                  requests (processNonStreamingRequest sandwichShop sandwichModel ?opts ?msgs 0)
                    = [?opts, followUpRequest ?opts (fullMessages ?s)]
                \<and> answer (processNonStreamingRequest sandwichShop sandwichModel ?opts ?msgs 0)
                    = (case sandwichModel (followUpRequest ?opts (fullMessages ?s)) of
                         Inl err \<Rightarrow> Inl failedToProcess
                       | Inr finalResponse \<Rightarrow> Inr finalResponse)
                \<and> \<not> req_tools (followUpRequest ?opts (fullMessages ?s))
                \<and> (req_model ?opts \<noteq> ''qwen-3-32b'' \<longrightarrow>
                      req_messages (followUpRequest ?opts (fullMessages ?s))
                        = filter (\<lambda>m. role m \<noteq> RoleAssistant) (fullMessages ?s)
                    \<and> (\<forall>m \<in> set (req_messages (followUpRequest ?opts (fullMessages ?s))).
                          role m = RoleSystem \<or> role m = RoleUser \<or> role m = RoleTool))
                \<and> (req_model ?opts = ''qwen-3-32b'' \<longrightarrow>
                      req_messages (followUpRequest ?opts (fullMessages ?s))
                        = fullMessages ?s))
            \<and> (added = [] \<longrightarrow>
                  requests (processNonStreamingRequest sandwichShop sandwichModel ?opts ?msgs 0)
                    = [?opts]
                \<and> answer (processNonStreamingRequest sandwichShop sandwichModel ?opts ?msgs 0)
                    = Inr ?response)"
    by (rule looped) (simp add: sandwich_loop del: toolCallLoop.simps)
  then show ?thesis
    by (auto simp: followUpRequest_def sandwichRequest_def sandwichModel_def keptForFollowUp_def)
qed

text \<open>
  The claim as stated fails: with the model qwen-3-32b the follow-up request still holds the
  assistant message that carried the tool calls.
\<close>

theorem follow_up_request_counterexample:
  "requests (processNonStreamingRequest sandwichShop sandwichModel
       (sandwichRequest ''qwen-3-32b'') [UserMessage ''a ham sandwich please''] 0)
     = [sandwichRequest ''qwen-3-32b'',
        \<lparr>req_model = ''qwen-3-32b'',
         req_messages = [UserMessage ''a ham sandwich please'',
                         AssistantMessage None [sandwichCall ''t1'', sandwichCall ''t2''],
                         ToolMessage ''Sandwich ordered'' ''t1''],
         req_tools = False\<rparr>]
   \<and> role (AssistantMessage None [sandwichCall ''t1'', sandwichCall ''t2'']) = RoleAssistant"
  by (simp add: processNonStreamingRequest_def sandwichModel_def sandwichRequest_def
      sandwich_loop followUpRequest_def del: toolCallLoop.simps)

end
